theory Spec2Isabelle
  imports Complex_Main
begin

section \<open>Strings and paths\<close>

text \<open>
  File names are Python \<open>str\<close> values; a \<^typ>\<open>char\<close> stands for one code point.
  Code points beyond the range of \<^typ>\<open>char\<close> are in none of the character classes
  used by \<open>main.py\<close> and behave like any other character outside them.
\<close>

definition digit_char :: "nat \<Rightarrow> char" where
  "digit_char d = char_of (48 + d)"

text \<open>Python's \<open>str(n)\<close> for a non-negative integer: its decimal numeral.\<close>

fun str_nat :: "nat \<Rightarrow> string" where
  "str_nat n = (if n < 10 then [digit_char n] else str_nat (n div 10) @ [digit_char (n mod 10)])"

declare str_nat.simps [simp del]

text \<open>\<open>str.rfind(c)\<close> for a single character: the highest index of \<open>c\<close>, or \<open>-1\<close>.\<close>

fun find_last :: "char \<Rightarrow> string \<Rightarrow> nat \<Rightarrow> int \<Rightarrow> int" where
  "find_last c [] i acc = acc"
| "find_last c (x # xs) i acc = find_last c xs (Suc i) (if x = c then int i else acc)"

definition rfind :: "string \<Rightarrow> char \<Rightarrow> int" where
  "rfind p c = find_last c p 0 (- 1)"

text \<open>
  \<open>genericpath._splitext(p, sep, altsep, extsep)\<close> as \<open>posixpath.splitext\<close> calls it
  (\<open>sep = '/'\<close>, \<open>altsep = None\<close>, \<open>extsep = '.'\<close>): the extension starts at the last
  dot of the last path component, unless only dots precede it there.
  \<open>skip_dots\<close> is the inner \<open>while filenameIndex < dotIndex\<close> loop; it returns whether
  a character other than the dot was met.
\<close>

function skip_dots :: "string \<Rightarrow> nat \<Rightarrow> nat \<Rightarrow> bool" where
  "skip_dots p filenameIndex dotIndex =
     (if filenameIndex < dotIndex
      then (if take 1 (drop filenameIndex p) \<noteq> ''.'' then True
            else skip_dots p (Suc filenameIndex) dotIndex)
      else False)"
  by pat_completeness auto
termination
  by (relation "measure (\<lambda>(p, filenameIndex, dotIndex). dotIndex - filenameIndex)") auto

declare skip_dots.simps [simp del]

definition splitext :: "string \<Rightarrow> string \<times> string" where
  "splitext p =
     (let sepIndex = rfind p CHR ''/'';
          dotIndex = rfind p CHR ''.''
      in if dotIndex > sepIndex
         then (if skip_dots p (nat (sepIndex + 1)) (nat dotIndex)
               then (take (nat dotIndex) p, drop (nat dotIndex) p)
               else (p, []))
         else (p, []))"

text \<open>
  \<open>posixpath.join(a, b)\<close> for two components: an absolute \<open>b\<close> replaces \<open>a\<close>;
  otherwise the components are joined by one separator unless \<open>a\<close> is empty or ends
  with one.
\<close>

definition path_join :: "string \<Rightarrow> string \<Rightarrow> string" where
  "path_join a b =
     (if take 1 b = ''/'' then b
      else if a = [] \<or> take 1 (rev a) = ''/'' then a @ b
      else a @ ''/'' @ b)"

definition CONVERT_MEDIA_FOLDER :: string where
  "CONVERT_MEDIA_FOLDER = ''convert_media''"

definition CONVERTED_MEDIA_FOLDER :: string where
  "CONVERTED_MEDIA_FOLDER = ''converted_media''"

definition FFMPEG :: string where
  "FFMPEG = ''ffmpeg''"

definition FFPROBE :: string where
  "FFPROBE = ''ffprobe''"

section \<open>The file system\<close>

text \<open>
  The file system is the list of its entries, each a path as the program writes it
  (a folder's name joined with an entry's name) with the kind of the entry. Regular
  files are the only entries the program itself renames.
\<close>

datatype kind = File | Dir

type_synonym filesystem = "(string \<times> kind) list"

datatype error =
    FileNotFoundError
  | IsADirectoryError
  | NotADirectoryError
  | JSONDecodeError
  | KeyError string
  | TypeError
  | ValueError
  | SystemExit int

definition exists :: "filesystem \<Rightarrow> string \<Rightarrow> bool" where
  "exists fs path = (map_of fs path \<noteq> None)"

definition isfile :: "filesystem \<Rightarrow> string \<Rightarrow> bool" where
  "isfile fs path = (map_of fs path = Some File)"

text \<open>
  \<open>os.listdir(folder)\<close>: the names of the entries directly inside the folder, in the
  order of the file system's list.
\<close>

definition child_name :: "string \<Rightarrow> string \<Rightarrow> string option" where
  "child_name folder path =
     (let pre = folder @ ''/''; n = drop (length pre) path
      in if take (length pre) path = pre \<and> n \<noteq> [] \<and> CHR ''/'' \<notin> set n then Some n else None)"

definition listdir :: "filesystem \<Rightarrow> string \<Rightarrow> string list" where
  "listdir fs folder = List.map_filter (\<lambda>(p, k). child_name folder p) fs"

text \<open>
  \<open>os.rename(src, dst)\<close> of a regular file, with the semantics of POSIX \<open>rename(2)\<close>:
  a missing source raises \<open>FileNotFoundError\<close>; a destination written with a trailing
  separator names a directory, which a regular file cannot become
  (\<open>NotADirectoryError\<close>), and an existing directory is not replaced by a regular
  file (\<open>IsADirectoryError\<close>); renaming a file to itself does nothing; otherwise
  the source takes the new path and a regular file already there is replaced silently.
  A source that is a directory is never passed by the program (every caller filters
  with \<open>isfile\<close>); its entry is moved alone.
\<close>

definition rename :: "filesystem \<Rightarrow> string \<Rightarrow> string \<Rightarrow> error + filesystem" where
  "rename fs src dst =
     (case map_of fs src of
        None \<Rightarrow> Inl FileNotFoundError
      | Some k \<Rightarrow>
          if k = File \<and> take 1 (rev dst) = ''/'' then Inl NotADirectoryError
          else if k = File \<and> map_of fs dst = Some Dir then Inl IsADirectoryError
          else if k = Dir \<and> map_of fs dst = Some File then Inl NotADirectoryError
          else if src = dst then Inr fs
          else Inr (map (\<lambda>(p, k'). if p = src then (dst, k') else (p, k'))
                      (filter (\<lambda>(p, k'). p \<noteq> dst) fs)))"

section \<open>The log and the state of a run\<close>

datatype level = INFO | ERROR

type_synonym log_entry = "level \<times> string"

text \<open>A command handed to \<open>subprocess\<close>: an argument vector, or a shell line.\<close>

datatype command = Argv "string list" | Shell string

text \<open>
  The state a run threads through: the file system, the records written to the log
  file, and the external commands started so far, oldest first.
\<close>

record world =
  disk :: filesystem
  logged :: "log_entry list"
  procs :: "command list"

definition logging_info :: "string \<Rightarrow> world \<Rightarrow> world" where
  "logging_info msg w = w\<lparr>logged := logged w @ [(INFO, msg)]\<rparr>"

definition logging_error :: "string \<Rightarrow> world \<Rightarrow> world" where
  "logging_error msg w = w\<lparr>logged := logged w @ [(ERROR, msg)]\<rparr>"

section \<open>\<open>prepare_files\<close>\<close>

text \<open>The characters of \<open>r'~\/*?<>|:" '\<close>, whose presence makes a name a candidate.\<close>

definition special_chars :: string where
  "special_chars = [CHR ''~'', CHR 0x5C, CHR ''/'', CHR ''*'', CHR ''?'', CHR ''<'', CHR ''>'',
                    CHR ''|'', CHR '':'', CHR 0x22, CHR '' '']"

definition has_special :: "string \<Rightarrow> bool" where
  "has_special file = list_ex (\<lambda>char. char \<in> set special_chars) file"

text \<open>The class \<open>[a-zA-Z0-9_ .]\<close> whose complement \<open>re.sub\<close> deletes.\<close>

definition in_class :: "char \<Rightarrow> bool" where
  "in_class c =
     (let n = (of_char c :: nat)
      in (97 \<le> n \<and> n \<le> 122) \<or> (65 \<le> n \<and> n \<le> 90) \<or> (48 \<le> n \<and> n \<le> 57)
         \<or> c = CHR ''_'' \<or> c = CHR '' '' \<or> c = CHR ''.'')"

definition re_sub_strip :: "string \<Rightarrow> string" where
  "re_sub_strip file = filter in_class file"

definition replace_spaces :: "string \<Rightarrow> string" where
  "replace_spaces s = map (\<lambda>c. if c = CHR '' '' then CHR ''_'' else c) s"

definition numbered :: "string \<Rightarrow> nat \<Rightarrow> string \<Rightarrow> string" where
  "numbered file_prefix counter file_extension =
     file_prefix @ ''_'' @ str_nat counter @ file_extension"

text \<open>
  Decimal numerals determine their number, so the numbered candidates of one name are
  pairwise different paths and only finitely many of them exist.
\<close>

lemma digit_value: "d < 10 \<Longrightarrow> (of_char (digit_char d) :: nat) = 48 + d"
  by (simp add: digit_char_def)

lemma str_nat_value: "foldl (\<lambda>a c. 10 * a + ((of_char c :: nat) - 48)) 0 (str_nat n) = n"
proof (induction n rule: str_nat.induct)
  case (1 n)
  show ?case
  proof (cases "n < 10")
    case True
    then show ?thesis by (simp add: str_nat.simps [of n] digit_value)
  next
    case False
    with 1 show ?thesis by (simp add: str_nat.simps [of n] digit_value)
  qed
qed

lemma str_nat_inj: "str_nat m = str_nat n \<Longrightarrow> m = n"
  by (metis str_nat_value)

lemma path_join_suffix_inj:
  assumes "q \<noteq> []" and "path_join a (q @ x) = path_join a (q @ y)"
  shows "x = y"
proof -
  from assms(1) have "take 1 (q @ x) = take 1 (q @ y)" by (cases q) simp_all
  with assms(2) show ?thesis by (auto simp: path_join_def split: if_splits)
qed

lemma finite_numbered_paths:
  assumes "q \<noteq> []"
  shows "finite {k. exists fs (path_join a (q @ str_nat k @ e))}"
proof -
  let ?h = "\<lambda>k. path_join a (q @ str_nat k @ e)"
  have "inj ?h"
  proof (rule injI)
    fix m n assume "?h m = ?h n"
    then have "str_nat m @ e = str_nat n @ e" using assms by (rule path_join_suffix_inj [rotated])
    then show "m = n" by (simp add: str_nat_inj)
  qed
  then have "finite (?h -` dom (map_of fs))" by (intro finite_vimageI finite_dom_map_of)
  moreover have "{k. exists fs (?h k)} = ?h -` dom (map_of fs)"
    by (auto simp: exists_def)
  ultimately show ?thesis by simp
qed

lemma numbered_paths_decrease:
  assumes "q \<noteq> []" and "exists fs (path_join a (q @ str_nat c @ e))"
  shows "card {k. Suc c \<le> k \<and> exists fs (path_join a (q @ str_nat k @ e))}
       < card {k. c \<le> k \<and> exists fs (path_join a (q @ str_nat k @ e))}"
proof (rule psubset_card_mono)
  show "finite {k. c \<le> k \<and> exists fs (path_join a (q @ str_nat k @ e))}"
    using finite_numbered_paths [OF assms(1), of fs a e] by simp
  show "{k. Suc c \<le> k \<and> exists fs (path_join a (q @ str_nat k @ e))}
      \<subset> {k. c \<le> k \<and> exists fs (path_join a (q @ str_nat k @ e))}"
  proof -
    have "c \<in> {k. c \<le> k \<and> exists fs (path_join a (q @ str_nat k @ e))}"
      using assms(2) by simp
    moreover have "c \<notin> {k. Suc c \<le> k \<and> exists fs (path_join a (q @ str_nat k @ e))}"
      by simp
    ultimately show ?thesis by fastforce
  qed
qed

text \<open>
  Lines 136 to 141: the \<open>while\<close> loop that looks for a numbered name. It tests the
  candidate \<open>prefix_counter.ext\<close> and, when that path exists, makes it the new name
  and moves on to the next counter.
\<close>

function counter_loop :: "filesystem \<Rightarrow> string \<Rightarrow> string \<Rightarrow> nat \<Rightarrow> string \<Rightarrow> string" where
  "counter_loop fs file_prefix file_extension counter new_file_name =
     (if exists fs (path_join CONVERT_MEDIA_FOLDER (numbered file_prefix counter file_extension))
      then counter_loop fs file_prefix file_extension (Suc counter)
             (numbered file_prefix counter file_extension)
      else new_file_name)"
  by pat_completeness auto
termination
proof (relation "measure (\<lambda>(fs, file_prefix, file_extension, counter, new_file_name).
         card {k. counter \<le> k \<and>
                  exists fs (path_join CONVERT_MEDIA_FOLDER
                               ((file_prefix @ ''_'') @ str_nat k @ file_extension))})")
  show "wf (measure (\<lambda>(fs, file_prefix, file_extension, counter, new_file_name).
         card {k. counter \<le> k \<and>
                  exists fs (path_join CONVERT_MEDIA_FOLDER
                               ((file_prefix @ ''_'') @ str_nat k @ file_extension))}))"
    by simp
next
  fix fs :: filesystem and pre ext new :: string and counter :: nat
  assume "exists fs (path_join CONVERT_MEDIA_FOLDER (numbered pre counter ext))"
  then have "exists fs (path_join CONVERT_MEDIA_FOLDER ((pre @ ''_'') @ str_nat counter @ ext))"
    by (simp add: numbered_def)
  from numbered_paths_decrease [OF _ this]
  show "((fs, pre, ext, Suc counter, numbered pre counter ext), (fs, pre, ext, counter, new))
        \<in> measure (\<lambda>(fs, file_prefix, file_extension, counter, new_file_name).
            card {k. counter \<le> k \<and>
                     exists fs (path_join CONVERT_MEDIA_FOLDER
                                  ((file_prefix @ ''_'') @ str_nat k @ file_extension))})"
    by simp
qed

declare counter_loop.simps [simp del]

text \<open>Lines 127 to 141: the name a candidate file is to take.\<close>

definition new_name :: "filesystem \<Rightarrow> string \<Rightarrow> string" where
  "new_name fs file =
     (let new_file_name = re_sub_strip file;
          new_file_name = replace_spaces new_file_name;
          (file_prefix, file_extension) = splitext new_file_name
      in counter_loop fs file_prefix file_extension 1 new_file_name)"

text \<open>
  The body of the \<open>for\<close> loop, lines 122 to 149. \<open>os.rename\<close> is called outside any
  \<open>try\<close>: an error it raises leaves the loop and the function.
\<close>

definition renamed_message :: "string \<Rightarrow> string \<Rightarrow> string" where
  \<open>renamed_message file new_file_name =
     ''Renamed file: "'' @ file @ ''" to "'' @ new_file_name @ ''"''\<close>

definition prepare_file :: "string \<Rightarrow> world \<Rightarrow> error + world" where
  "prepare_file file w =
     (if has_special file
      then (let new_file_name = new_name (disk w) file
            in if file \<noteq> new_file_name
               then (case rename (disk w) (path_join CONVERT_MEDIA_FOLDER file)
                                        (path_join CONVERT_MEDIA_FOLDER new_file_name) of
                       Inl e \<Rightarrow> Inl e
                     | Inr fs' \<Rightarrow> Inr (logging_info (renamed_message file new_file_name)
                                        (w\<lparr>disk := fs'\<rparr>)))
               else Inr w)
      else Inr w)"

fun prepare_loop :: "string list \<Rightarrow> world \<Rightarrow> error + world" where
  "prepare_loop [] w = Inr w"
| "prepare_loop (file # files) w =
     (case prepare_file file w of Inl e \<Rightarrow> Inl e | Inr w' \<Rightarrow> prepare_loop files w')"

definition files_in :: "filesystem \<Rightarrow> string \<Rightarrow> string list" where
  "files_in fs folder = filter (\<lambda>file. isfile fs (path_join folder file)) (listdir fs folder)"

definition prepare_files :: "world \<Rightarrow> error + world" where
  "prepare_files w =
     (let w1 = logging_info ''Checking filenames for non-standard characters:'' w;
          files_in_convert = files_in (disk w1) CONVERT_MEDIA_FOLDER
      in case prepare_loop files_in_convert w1 of
           Inl e \<Rightarrow> Inl e
         | Inr w2 \<Rightarrow> Inr (logging_info ''Filenames prepared for processing.'' w2))"

section \<open>The external engines and the Python runtime\<close>

text \<open>JSON values as \<open>json.loads\<close> builds them.\<close>

datatype json =
    JNull
  | JBool bool
  | JInt int
  | JFloat rat
  | JStr string
  | JArr "json list"
  | JObj "(string \<times> json) list"

text \<open>
  What lies outside \<open>main.py\<close> is a parameter of the model:
  \<^item> \<open>version_check\<close>: the exit status of \<open>ffmpeg -version\<close>, or \<open>None\<close> when the
    program cannot be started;
  \<^item> \<open>run_ffprobe\<close>: the exit status of a probe command and the output captured from
    it (standard output with the error stream merged into it);
  \<^item> \<open>run_ffmpeg\<close>: the exit status of a conversion command, its captured error stream
    and the file system it leaves behind;
  \<^item> \<open>json_loads\<close>: the JSON parser, \<open>None\<close> when it raises \<open>JSONDecodeError\<close>;
  \<^item> \<open>float_of_str\<close>: \<open>float\<close> on a string, \<open>None\<close> when it raises \<open>ValueError\<close>;
  \<^item> \<open>str_of_json\<close>: \<open>str\<close> on a parsed value, as an f-string renders it;
  \<^item> \<open>str_of_exc\<close>: \<open>str\<close> on the \<open>CalledProcessError\<close> of a command and status.

  A \<open>float\<close> is modelled by the rational number it denotes, and arithmetic on floats
  by exact arithmetic; non-finite floats are left out.
\<close>

record env =
  version_check :: "int option"
  run_ffprobe :: "command \<Rightarrow> filesystem \<Rightarrow> int \<times> string"
  run_ffmpeg :: "command \<Rightarrow> filesystem \<Rightarrow> int \<times> string \<times> filesystem"
  json_loads :: "string \<Rightarrow> json option"
  float_of_str :: "string \<Rightarrow> rat option"
  str_of_json :: "json \<Rightarrow> string"
  str_of_exc :: "command \<Rightarrow> int \<Rightarrow> string"

definition started :: "command \<Rightarrow> world \<Rightarrow> world" where
  "started cmd w = w\<lparr>procs := procs w @ [cmd]\<rparr>"

text \<open>\<open>str.lower\<close>, \<open>str.strip\<close> and the substring test \<open>sub in s\<close>.\<close>

definition lower_char :: "char \<Rightarrow> char" where
  "lower_char c =
     (let n = (of_char c :: nat)
      in if (65 \<le> n \<and> n \<le> 90) \<or> (192 \<le> n \<and> n \<le> 222 \<and> n \<noteq> 215)
         then char_of (n + 32) else c)"

definition lower :: "string \<Rightarrow> string" where
  "lower s = map lower_char s"

definition isspace :: "char \<Rightarrow> bool" where
  "isspace c =
     (let n = (of_char c :: nat)
      in (9 \<le> n \<and> n \<le> 13) \<or> (28 \<le> n \<and> n \<le> 32) \<or> n = 133 \<or> n = 160)"

definition strip :: "string \<Rightarrow> string" where
  "strip s = rev (dropWhile isspace (rev (dropWhile isspace s)))"

fun is_substring :: "string \<Rightarrow> string \<Rightarrow> bool" where
  "is_substring sub [] = (sub = [])"
| "is_substring sub (c # cs) = (take (length sub) (c # cs) = sub \<or> is_substring sub cs)"

section \<open>\<open>validate_files\<close>\<close>

definition validate_command :: "string \<Rightarrow> command" where
  "validate_command input_file_path =
     Argv [FFPROBE, ''-hide_banner'', ''-v'', ''error'', ''-select_streams'', ''v:0'',
           ''-show_entries'', ''stream=codec_type'', ''-of'', ''csv=p=0'', input_file_path]"

definition no_stream_message :: "string \<Rightarrow> string" where
  \<open>no_stream_message file = ''File "'' @ file @ ''" does not contain a valid video stream.''\<close>

definition validate_error_message :: "string \<Rightarrow> string" where
  \<open>validate_error_message file =
     ''Error in function `validate_files` running ffprobe for file "'' @ file @ ''".''\<close>

text \<open>
  The body of the \<open>for\<close> loop, lines 162 to 194. \<open>check_output\<close> raises
  \<open>CalledProcessError\<close> on a non-zero exit status, and the \<open>except\<close> clause logs it.
\<close>

definition validate_file :: "env \<Rightarrow> string \<Rightarrow> string list \<times> world \<Rightarrow> string list \<times> world" where
  "validate_file en file acc =
     (let (valid_video_files, w) = acc;
          input_file_path = path_join CONVERT_MEDIA_FOLDER file;
          ffprobe_command = validate_command input_file_path;
          (returncode, ffprobe_output) = run_ffprobe en ffprobe_command (disk w);
          w1 = started ffprobe_command w
      in if returncode = 0
         then (if is_substring ''video'' (lower ffprobe_output)
               then (valid_video_files @ [file], w1)
               else (valid_video_files,
                     logging_error (''ffprobe output for '' @ file @ '': '' @ strip ffprobe_output)
                       (logging_error (no_stream_message file) w1)))
         else (valid_video_files,
               logging_error (''Returned from ffprobe: '' @ strip ffprobe_output)
                 (logging_error (validate_error_message file) w1)))"

text \<open>The condition of lines 179 to 185 under which the file is appended to the valid list.\<close>

definition probe_ok :: "env \<Rightarrow> filesystem \<Rightarrow> string \<Rightarrow> bool" where
  "probe_ok en fs f =
     (fst (run_ffprobe en (validate_command (path_join CONVERT_MEDIA_FOLDER f)) fs) = 0
      \<and> is_substring ''video''
            (lower (snd (run_ffprobe en (validate_command (path_join CONVERT_MEDIA_FOLDER f)) fs))))"

fun validate_loop :: "env \<Rightarrow> string list \<Rightarrow> string list \<times> world \<Rightarrow> string list \<times> world" where
  "validate_loop en [] acc = acc"
| "validate_loop en (file # files) acc = validate_loop en files (validate_file en file acc)"

definition validate_files :: "env \<Rightarrow> string list \<Rightarrow> world \<Rightarrow> string list \<times> world" where
  "validate_files en files w = validate_loop en files ([], w)"

section \<open>Formatting\<close>

definition zero_pad :: "nat \<Rightarrow> string \<Rightarrow> string" where
  "zero_pad width s = replicate (width - length s) CHR ''0'' @ s"

text \<open>\<open>"{:02}".format(n)\<close> for an integer: zero-padded to two characters, sign included.\<close>

definition format_02 :: "int \<Rightarrow> string" where
  "format_02 n =
     (if n < 0 then ''-'' @ zero_pad 1 (str_nat (nat (- n))) else zero_pad 2 (str_nat (nat n)))"

text \<open>Rounding to the nearest integer, ties to even, as float formatting rounds.\<close>

definition round_half_even :: "rat \<Rightarrow> int" where
  "round_half_even y =
     (let f = \<lfloor>y\<rfloor>; r = y - of_int f
      in if r < 1 / 2 then f else if 1 / 2 < r then f + 1 else if even f then f else f + 1)"

text \<open>
  \<open>"{:.2f}".format(x)\<close>: sign, integer part, point and two decimals. The format
  asks for no minimum width, so the integer part takes as many digits as it has.
\<close>

definition format_2f :: "rat \<Rightarrow> string" where
  "format_2f x =
     (let n = nat (round_half_even (\<bar>x\<bar> * 100))
      in (if x < 0 then ''-'' else []) @ str_nat (n div 100) @ ''.'' @ zero_pad 2 (str_nat (n mod 100)))"

text \<open>Python's \<open>//\<close> and \<open>%\<close> on floats, by a positive divisor.\<close>

definition floordiv :: "rat \<Rightarrow> rat \<Rightarrow> rat" where
  "floordiv a b = of_int \<lfloor>a / b\<rfloor>"

definition pymod :: "rat \<Rightarrow> rat \<Rightarrow> rat" where
  "pymod a b = a - b * of_int \<lfloor>a / b\<rfloor>"

text \<open>Lines 224 to 228 (and again 375 to 379).\<close>

definition format_duration :: "rat \<Rightarrow> string" where
  "format_duration duration_seconds =
     format_02 \<lfloor>floordiv duration_seconds 3600\<rfloor> @ '':''
     @ format_02 \<lfloor>floordiv (pymod duration_seconds 3600) 60\<rfloor> @ '':''
     @ format_2f (pymod duration_seconds 60)"

definition format_bitrate :: "rat \<Rightarrow> string" where
  "format_bitrate bit_rate = format_2f (bit_rate / 1000) @ '' kb/s''"

definition format_size_mb :: "rat \<Rightarrow> string" where
  "format_size_mb size_bytes = format_2f (size_bytes / (1024 * 1024)) @ '' MB''"

section \<open>\<open>get_output_file_path\<close>\<close>

definition converted_name :: "string \<Rightarrow> nat \<Rightarrow> string" where
  "converted_name file_prefix counter = file_prefix @ ''_converted_'' @ str_nat counter @ ''.mp4''"

lemma numbered_paths_step:
  assumes "q \<noteq> []"
  shows "card {k. Suc c \<le> k \<and> exists fs (path_join a (q @ str_nat k @ e))}
         + (if exists fs (path_join a (q @ str_nat c @ e)) then 1 else 0)
       = card {k. c \<le> k \<and> exists fs (path_join a (q @ str_nat k @ e))}"
proof -
  let ?P = "\<lambda>k. exists fs (path_join a (q @ str_nat k @ e))"
  have fin: "finite {k. Suc c \<le> k \<and> ?P k}"
    using finite_numbered_paths [OF assms, of fs a e] by simp
  show ?thesis
  proof (cases "?P c")
    case True
    then have "{k. c \<le> k \<and> ?P k} = insert c {k. Suc c \<le> k \<and> ?P k}"
      by (auto simp: le_Suc_eq)
    with fin True show ?thesis by simp
  next
    case False
    then have "{k. c \<le> k \<and> ?P k} = {k. Suc c \<le> k \<and> ?P k}"
      by (metis (mono_tags, lifting) Collect_cong Suc_le_eq le_neq_implies_less less_imp_le_nat)
    with False show ?thesis by simp
  qed
qed

text \<open>
  Lines 331 to 337: the \<open>while\<close> loop. It tests the path it holds, and replaces an
  existing one by the next numbered path.
\<close>

function output_loop :: "filesystem \<Rightarrow> string \<Rightarrow> nat \<Rightarrow> string \<Rightarrow> string" where
  "output_loop fs file_prefix counter output_file_path =
     (if exists fs output_file_path
      then output_loop fs file_prefix (Suc counter)
             (path_join CONVERTED_MEDIA_FOLDER (converted_name file_prefix counter))
      else output_file_path)"
  by pat_completeness auto
termination
proof (relation "measure (\<lambda>(fs, file_prefix, counter, output_file_path).
         card {k. counter \<le> k \<and>
                  exists fs (path_join CONVERTED_MEDIA_FOLDER
                               ((file_prefix @ ''_converted_'') @ str_nat k @ ''.mp4''))}
         + (if exists fs output_file_path then 1 else 0))")
  show "wf (measure (\<lambda>(fs, file_prefix, counter, output_file_path).
         card {k. counter \<le> k \<and>
                  exists fs (path_join CONVERTED_MEDIA_FOLDER
                               ((file_prefix @ ''_converted_'') @ str_nat k @ ''.mp4''))}
         + (if exists fs output_file_path then 1 else 0)))"
    by simp
next
  fix fs :: filesystem and pre path :: string and counter :: nat
  assume "exists fs path"
  moreover have "pre @ ''_converted_'' \<noteq> []" by simp
  note numbered_paths_step [OF this, of counter fs CONVERTED_MEDIA_FOLDER "''.mp4''"]
  ultimately
  show "((fs, pre, Suc counter, path_join CONVERTED_MEDIA_FOLDER (converted_name pre counter)),
         (fs, pre, counter, path))
        \<in> measure (\<lambda>(fs, file_prefix, counter, output_file_path).
            card {k. counter \<le> k \<and>
                     exists fs (path_join CONVERTED_MEDIA_FOLDER
                                  ((file_prefix @ ''_converted_'') @ str_nat k @ ''.mp4''))}
            + (if exists fs output_file_path then 1 else 0))"
    by (simp add: converted_name_def)
qed

declare output_loop.simps [simp del]

definition get_output_file_path :: "filesystem \<Rightarrow> string \<Rightarrow> string" where
  "get_output_file_path fs file =
     (let convert_folder = CONVERTED_MEDIA_FOLDER;
          (file_prefix, file_extension) = splitext file;
          output_file_path = path_join convert_folder (file_prefix @ ''_converted.mp4'')
      in output_loop fs file_prefix 1 output_file_path)"

section \<open>\<open>inspect_files\<close> and \<open>inspect_converted_files\<close>\<close>

text \<open>Running one fallible step after another: the first exception ends the sequence.\<close>

definition and_then :: "error + 'a \<Rightarrow> ('a \<Rightarrow> error + 'b) \<Rightarrow> error + 'b" where
  "and_then r f = (case r of Inl e \<Rightarrow> Inl e | Inr x \<Rightarrow> f x)"

text \<open>
  \<open>obj[key]\<close> with a string key: a dictionary without the key raises \<open>KeyError\<close>,
  any other value \<open>TypeError\<close>.
\<close>

definition getitem :: "json \<Rightarrow> string \<Rightarrow> error + json" where
  "getitem obj key =
     (case obj of
        JObj kvs \<Rightarrow> (case map_of kvs key of None \<Rightarrow> Inl (KeyError key) | Some v \<Rightarrow> Inr v)
      | _ \<Rightarrow> Inl TypeError)"

text \<open>\<open>key in obj\<close> for a value that \<open>getitem\<close> has accepted, hence a dictionary.\<close>

definition has_key :: "json \<Rightarrow> string \<Rightarrow> bool" where
  "has_key obj key = (case obj of JObj kvs \<Rightarrow> map_of kvs key \<noteq> None | _ \<Rightarrow> False)"

text \<open>
  The values a \<open>for\<close> loop draws from a parsed value: the elements of a list, the
  keys of a dictionary, the characters of a string; anything else is not iterable.
\<close>

definition iterate :: "json \<Rightarrow> error + json list" where
  "iterate v =
     (case v of
        JArr xs \<Rightarrow> Inr xs
      | JObj kvs \<Rightarrow> Inr (map (\<lambda>(k, x). JStr k) kvs)
      | JStr s \<Rightarrow> Inr (map (\<lambda>c. JStr [c]) s)
      | _ \<Rightarrow> Inl TypeError)"

text \<open>\<open>float(v)\<close> on a parsed value.\<close>

definition py_float :: "env \<Rightarrow> json \<Rightarrow> error + rat" where
  "py_float en v =
     (case v of
        JStr s \<Rightarrow> (case float_of_str en s of None \<Rightarrow> Inl ValueError | Some x \<Rightarrow> Inr x)
      | JInt i \<Rightarrow> Inr (of_int i)
      | JFloat x \<Rightarrow> Inr x
      | JBool b \<Rightarrow> Inr (if b then 1 else 0)
      | _ \<Rightarrow> Inl TypeError)"

text \<open>
  The two functions hold the same loop body, apart from the folder, the label of the
  first line and the function named in the error message.
\<close>

definition inspect_command :: "string \<Rightarrow> command" where
  \<open>inspect_command file_path =
     Shell (FFPROBE @ '' -hide_banner -v error -show_entries format=duration,bit_rate,size''
            @ '' -show_entries stream=codec_type,width,height,display_aspect_ratio,codec_name''
            @ '' -of json "'' @ file_path @ ''"'')\<close>

definition inspect_error_message :: "env \<Rightarrow> string \<Rightarrow> string \<Rightarrow> command \<Rightarrow> int \<Rightarrow> string" where
  \<open>inspect_error_message en fname file cmd returncode =
     ''Error in `'' @ fname @ ''` function running ffprobe for file "'' @ file @ ''": ''
     @ str_of_exc en cmd returncode\<close>

text \<open>Lines 246 to 260: what one stream adds to the log.\<close>

definition inspect_stream :: "env \<Rightarrow> json \<Rightarrow> world \<Rightarrow> error + world" where
  "inspect_stream en stream w =
     and_then (getitem stream ''codec_type'') (\<lambda>codec_type.
       if codec_type = JStr ''video''
       then and_then
              (if has_key stream ''codec_name''
               then and_then (getitem stream ''codec_name'') (\<lambda>codec_name.
                      Inr (logging_info (''Video Codec: '' @ str_of_json en codec_name) w))
               else Inr w) (\<lambda>w1.
            and_then (getitem stream ''width'') (\<lambda>width.
            and_then (getitem stream ''height'') (\<lambda>height.
              let w2 = logging_info (''Resolution: '' @ str_of_json en width @ ''x''
                                     @ str_of_json en height) w1
              in if has_key stream ''display_aspect_ratio''
                 then and_then (getitem stream ''display_aspect_ratio'') (\<lambda>ratio.
                        Inr (logging_info (''Display Aspect Ratio: '' @ str_of_json en ratio) w2))
                 else Inr (logging_info ''Display Aspect Ratio: Not available'' w2))))
       else if codec_type = JStr ''audio''
       then Inr (logging_info ''Audio: Present'' w)
       else Inr w)"

fun inspect_streams :: "env \<Rightarrow> json list \<Rightarrow> world \<Rightarrow> error + world" where
  "inspect_streams en [] w = Inr w"
| "inspect_streams en (stream # streams) w =
     and_then (inspect_stream en stream w) (inspect_streams en streams)"

text \<open>
  Lines 220 to 260: the \<open>try\<close> body after a successful probe. None of the exceptions
  it can raise is a \<open>CalledProcessError\<close>, so none is caught.
\<close>

definition report :: "env \<Rightarrow> string \<Rightarrow> string \<Rightarrow> string \<Rightarrow> world \<Rightarrow> error + world" where
  "report en label file result w =
     (case json_loads en result of
        None \<Rightarrow> Inl JSONDecodeError
      | Some data \<Rightarrow>
          and_then (and_then (and_then (getitem data ''format'') (\<lambda>f. getitem f ''duration''))
                      (py_float en)) (\<lambda>duration_seconds.
          let formatted_duration = format_duration duration_seconds in
          and_then (and_then (and_then (getitem data ''format'') (\<lambda>f. getitem f ''bit_rate''))
                      (py_float en)) (\<lambda>bit_rate.
          let formatted_bitrate = format_bitrate bit_rate in
          and_then (and_then (and_then (getitem data ''format'') (\<lambda>f. getitem f ''size''))
                      (py_float en)) (\<lambda>size_bytes.
          let formatted_size_mb = format_size_mb size_bytes;
              w1 = logging_info (label @ file) w;
              w2 = logging_info (''Size: '' @ formatted_size_mb) w1;
              w3 = logging_info (''Duration: '' @ formatted_duration) w2;
              w4 = logging_info (''Bitrate: '' @ formatted_bitrate) w3
          in and_then (and_then (getitem data ''streams'') iterate) (\<lambda>streams.
               inspect_streams en streams w4)))))"

text \<open>One turn of the \<open>for\<close> loop: lines 212 to 266, and 363 to 417.\<close>

definition inspect_file :: "env \<Rightarrow> string \<Rightarrow> string \<Rightarrow> string \<Rightarrow> string \<Rightarrow> world \<Rightarrow> error + world" where
  "inspect_file en convert_folder label fname file w =
     (let file_path = path_join convert_folder file;
          ffprobe_command = inspect_command file_path;
          (returncode, result) = run_ffprobe en ffprobe_command (disk w);
          w1 = started ffprobe_command w
      in if returncode = 0 then report en label file result w1
         else Inr (logging_error (inspect_error_message en fname file ffprobe_command returncode) w1))"

fun inspect_loop :: "env \<Rightarrow> string \<Rightarrow> string \<Rightarrow> string \<Rightarrow> string list \<Rightarrow> world \<Rightarrow> error + world" where
  "inspect_loop en convert_folder label fname [] w = Inr w"
| "inspect_loop en convert_folder label fname (file # files) w =
     and_then (inspect_file en convert_folder label fname file w)
       (inspect_loop en convert_folder label fname files)"

definition no_valid_notice :: string where
  "no_valid_notice = ''No valid video files found in the convert_media folder.''"

definition inspect_files :: "env \<Rightarrow> string list \<Rightarrow> world \<Rightarrow> error + world" where
  "inspect_files en valid_video_files w =
     (if valid_video_files = [] then Inr (logging_info no_valid_notice w)
      else and_then
             (inspect_loop en CONVERT_MEDIA_FOLDER ''File: '' ''inspect_file'' valid_video_files
                (logging_info ''Inspecting validated files:'' w))
             (\<lambda>w'. Inr (logging_info ''File inspection completed.'' w')))"

definition inspect_converted_files :: "env \<Rightarrow> world \<Rightarrow> error + world" where
  "inspect_converted_files en w =
     (let convert_folder = CONVERTED_MEDIA_FOLDER;
          converted_files = files_in (disk w) convert_folder
      in if converted_files = []
         then Inr (logging_info ''No converted video files found in the converted_media folder.'' w)
         else and_then
                (inspect_loop en convert_folder ''Converted File: '' ''inspect_converted_files''
                   converted_files (logging_info ''Inspecting converted files:'' w))
                (\<lambda>w'. Inr (logging_info ''Converted file inspection completed.'' w')))"

section \<open>\<open>convert_video\<close>\<close>

definition convert_command :: "string \<Rightarrow> string \<Rightarrow> command" where
  "convert_command file_path output_file =
     Argv [FFMPEG, ''-hide_banner'', ''-i'', file_path, ''-c:v'', ''libx264'', ''-preset'',
           ''medium'', ''-crf'', ''23'', ''-vf'', ''format=yuv420p'', ''-vf'', ''scale=-2:720'',
           ''-c:a'', ''aac'', ''-q:a'', ''100'', ''-movflags'', ''faststart'', output_file]"

definition convert_error_message :: "string \<Rightarrow> string \<Rightarrow> string" where
  \<open>convert_error_message file stderr =
     ''Error converting file "'' @ file @ ''": '' @ strip stderr @ ''.''\<close>

text \<open>
  \<open>subprocess.run\<close> is called without \<open>check\<close>, so it raises no
  \<open>CalledProcessError\<close>: the exit status alone decides between the two log records.
\<close>

definition convert_video :: "env \<Rightarrow> string \<Rightarrow> world \<Rightarrow> world" where
  "convert_video en file w =
     (let w1 = logging_info (''Start file conversion for file '' @ file @ ''.'') w;
          file_path = path_join CONVERT_MEDIA_FOLDER file;
          output_file = get_output_file_path (disk w1) file;
          ffmpeg_command = convert_command file_path output_file;
          (returncode, stderr, fs') = run_ffmpeg en ffmpeg_command (disk w1);
          w2 = started ffmpeg_command (w1\<lparr>disk := fs'\<rparr>)
      in if returncode = 0
         then logging_info (''Conversion complete for file: '' @ file @ ''.'') w2
         else logging_error (convert_error_message file stderr) w2)"

fun convert_loop :: "env \<Rightarrow> string list \<Rightarrow> world \<Rightarrow> world" where
  "convert_loop en [] w = w"
| "convert_loop en (file # files) w = convert_loop en files (convert_video en file w)"

section \<open>The main program\<close>

text \<open>
  \<open>check_ffmpeg\<close> ends the process when \<open>ffmpeg -version\<close> fails. It runs before
  \<open>setup_logging\<close>, as \<open>setup_directories\<close> does, so what they log does not reach
  the log file.
\<close>

definition check_ffmpeg :: "env \<Rightarrow> error + bool" where
  "check_ffmpeg en =
     (case version_check en of
        None \<Rightarrow> Inl FileNotFoundError
      | Some returncode \<Rightarrow> if returncode = 0 then Inr True else Inl (SystemExit 1))"

definition LOGGING_FOLDER :: string where
  "LOGGING_FOLDER = ''logging''"

fun setup_directories :: "string list \<Rightarrow> filesystem \<Rightarrow> filesystem" where
  "setup_directories [] fs = fs"
| "setup_directories (directory # directories) fs =
     setup_directories directories (if \<not> exists fs directory then fs @ [(directory, Dir)] else fs)"

definition complete_message :: "string \<Rightarrow> string" where
  "complete_message batch_id = ''Processing complete for batch ID '' @ batch_id @ ''.'' @ [CHR 0x0A]"

text \<open>
  The block under \<open>if __name__ == "__main__"\<close>. The batch identifier, made from the
  clock and a random UUID, is a parameter.
\<close>

definition main :: "env \<Rightarrow> string \<Rightarrow> world \<Rightarrow> error + world" where
  "main en batch_id w =
     and_then (check_ffmpeg en) (\<lambda>ok.
       let w1 = w\<lparr>disk := setup_directories
                            [CONVERT_MEDIA_FOLDER, CONVERTED_MEDIA_FOLDER, LOGGING_FOLDER] (disk w)\<rparr>;
           w2 = logging_info ''Logging initiated.'' w1;
           w3 = logging_info (''Begin processing conversion batch ID: '' @ batch_id) w2
       in and_then (prepare_files w3) (\<lambda>w4.
            let files = files_in (disk w4) CONVERT_MEDIA_FOLDER;
                (valid_video_files, w5) = validate_files en files w4
            in and_then
                 (if valid_video_files \<noteq> []
                  then and_then (inspect_files en valid_video_files w5) (\<lambda>w6.
                         inspect_converted_files en (convert_loop en valid_video_files w6))
                  else Inr w5)
                 (\<lambda>w7. Inr (logging_info (complete_message batch_id) w7))))"

section \<open>A sample environment\<close>

text \<open>
  One environment for the concrete runs below. The probe rejects \<open>bad.avi\<close> with
  exit status 1 and finds a video stream in every other file; asked for metadata it
  answers \<open>video\<close> (not JSON) for \<open>odd.mov\<close>, an empty object for \<open>empty.mov\<close>,
  exit status 1 for \<open>gone.mp4\<close> and a full report otherwise. The converter fails on
  \<open>odd.mov\<close> and writes its output file otherwise.
\<close>

definition demo_json_text :: string where
  \<open>demo_json_text =
     ''{"streams": [{"codec_name": "h264", "codec_type": "video", "width": 1280, "height": 720}, ''
     @ ''{"codec_type": "audio"}], ''
     @ ''"format": {"duration": "3725.400000", "size": "1048576", "bit_rate": "1000000"}}''\<close>

definition demo_json :: json where
  "demo_json =
     JObj [(''streams'',
              JArr [JObj [(''codec_name'', JStr ''h264''), (''codec_type'', JStr ''video''),
                          (''width'', JInt 1280), (''height'', JInt 720)],
                    JObj [(''codec_type'', JStr ''audio'')]]),
           (''format'',
              JObj [(''duration'', JStr ''3725.400000''), (''size'', JStr ''1048576''),
                    (''bit_rate'', JStr ''1000000'')])]"

definition demo_env :: env where
  "demo_env =
     \<lparr>version_check = Some 0,
      run_ffprobe = (\<lambda>cmd fs.
        case cmd of
          Argv args \<Rightarrow>
            if cmd = validate_command ''convert_media/bad.avi''
            then (1, ''convert_media/bad.avi: Invalid data found when processing input'')
            else (0, ''video'' @ [CHR 0x0A])
        | Shell line \<Rightarrow>
            if cmd = inspect_command ''convert_media/odd.mov'' then (0, ''video'')
            else if cmd = inspect_command ''convert_media/empty.mov'' then (0, ''{}'')
            else if cmd = inspect_command ''converted_media/gone.mp4''
            then (1, ''converted_media/gone.mp4: No such file or directory'')
            else (0, demo_json_text)),
      run_ffmpeg = (\<lambda>cmd fs.
        case cmd of
          Argv args \<Rightarrow>
            if args ! 3 = ''convert_media/odd.mov'' then (1, ''Conversion failed!'' @ [CHR 0x0A], fs)
            else (0, [], fs @ [(last args, File)])
        | Shell line \<Rightarrow> (127, [], fs)),
      json_loads = (\<lambda>s. if s = demo_json_text then Some demo_json
                         else if s = ''{}'' then Some (JObj []) else None),
      float_of_str = (\<lambda>s. if s = ''3725.400000'' then Some (37254 / 10)
                           else if s = ''1048576'' then Some 1048576
                           else if s = ''1000000'' then Some 1000000 else None),
      str_of_json = (\<lambda>v. case v of JStr s \<Rightarrow> s | JInt i \<Rightarrow> str_nat (nat i) | _ \<Rightarrow> []),
      str_of_exc = (\<lambda>cmd returncode. ''non-zero exit status '' @ str_nat (nat returncode))\<rparr>"

section \<open>The path allocator\<close>

lemma output_loop_absent:
  "\<not> exists fs path \<Longrightarrow> output_loop fs p c path = path"
  by (simp add: output_loop.simps [of fs p c path])

lemma output_loop_present:
  "exists fs path \<Longrightarrow>
   \<exists>n\<ge>c. output_loop fs p c path = path_join CONVERTED_MEDIA_FOLDER (converted_name p n)
        \<and> \<not> exists fs (path_join CONVERTED_MEDIA_FOLDER (converted_name p n))
        \<and> (\<forall>m. c \<le> m \<and> m < n \<longrightarrow> exists fs (path_join CONVERTED_MEDIA_FOLDER (converted_name p m)))"
proof (induction fs p c path rule: output_loop.induct)
  case (1 fs p c path)
  let ?cand = "\<lambda>n. path_join CONVERTED_MEDIA_FOLDER (converted_name p n)"
  have step: "output_loop fs p c path = output_loop fs p (Suc c) (?cand c)"
    using "1.prems" by (simp add: output_loop.simps [of fs p c path])
  show ?case
  proof (cases "exists fs (?cand c)")
    case False
    then have "output_loop fs p c path = ?cand c"
      using step by (simp add: output_loop_absent)
    with False show ?thesis by auto
  next
    case True
    from "1.IH" [OF "1.prems" True] obtain n where n: "Suc c \<le> n"
      "output_loop fs p (Suc c) (?cand c) = ?cand n" "\<not> exists fs (?cand n)"
      "\<forall>m. Suc c \<le> m \<and> m < n \<longrightarrow> exists fs (?cand m)"
      by blast
    have "\<forall>m. c \<le> m \<and> m < n \<longrightarrow> exists fs (?cand m)"
    proof (intro allI impI)
      fix m assume m: "c \<le> m \<and> m < n"
      show "exists fs (?cand m)"
      proof (cases "m = c")
        case True with \<open>exists fs (?cand c)\<close> show ?thesis by simp
      next
        case False with m n(4) show ?thesis by simp
      qed
    qed
    with n step show ?thesis
      by (intro exI [of _ n]) simp
  qed
qed

lemma path_join_ends: "\<exists>s. path_join a (b @ e) = s @ e"
  by (auto simp: path_join_def)

lemma splitext_parts: "fst (splitext p) @ snd (splitext p) = p"
  by (auto simp: splitext_def Let_def)

lemma path_join_entry:
  assumes "CHR ''/'' \<notin> set p" and "x \<noteq> []" and "CHR ''/'' \<notin> set (take 1 x)"
  shows "path_join CONVERTED_MEDIA_FOLDER (p @ x) = ''converted_media/'' @ p @ x"
proof -
  have "take 1 (p @ x) \<noteq> ''/''"
    using assms by (cases p; cases x) auto
  then show ?thesis by (simp add: path_join_def CONVERTED_MEDIA_FOLDER_def)
qed

text \<open>
  C5. For a source name with stem \<open>S\<close> (the first component of \<open>splitext\<close>), the
  allocator returns \<open>S_converted.mp4\<close> joined to the output folder when that path
  does not exist; otherwise it returns \<open>S_converted_n.mp4\<close> for the least \<open>n \<ge> 1\<close> whose
  path does not exist. The result always ends in \<open>.mp4\<close>, whatever the extension of the
  source, and for a name without separator it lies directly in \<open>converted_media\<close>.
\<close>

theorem get_output_file_path_allocates:
  "(\<not> exists fs (path_join CONVERTED_MEDIA_FOLDER (fst (splitext file) @ ''_converted.mp4''))
      \<longrightarrow> get_output_file_path fs file
            = path_join CONVERTED_MEDIA_FOLDER (fst (splitext file) @ ''_converted.mp4''))
   \<and> (exists fs (path_join CONVERTED_MEDIA_FOLDER (fst (splitext file) @ ''_converted.mp4''))
      \<longrightarrow> (\<exists>n\<ge>1. get_output_file_path fs file
                   = path_join CONVERTED_MEDIA_FOLDER
                       (fst (splitext file) @ ''_converted_'' @ str_nat n @ ''.mp4'')
               \<and> \<not> exists fs (get_output_file_path fs file)
               \<and> (\<forall>m. 1 \<le> m \<and> m < n \<longrightarrow>
                     exists fs (path_join CONVERTED_MEDIA_FOLDER
                                  (fst (splitext file) @ ''_converted_'' @ str_nat m @ ''.mp4'')))))
   \<and> (\<exists>s. get_output_file_path fs file = s @ ''.mp4'')
   \<and> (CHR ''/'' \<notin> set file \<longrightarrow>
        (\<forall>x. path_join CONVERTED_MEDIA_FOLDER (fst (splitext file) @ ''_converted'' @ x)
             = ''converted_media/'' @ fst (splitext file) @ ''_converted'' @ x))"
proof -
  let ?S = "fst (splitext file)"
  let ?base = "path_join CONVERTED_MEDIA_FOLDER (?S @ ''_converted.mp4'')"
  have def: "get_output_file_path fs file = output_loop fs ?S 1 ?base"
    by (simp add: get_output_file_path_def Let_def split_beta)
  have a: "\<not> exists fs ?base \<longrightarrow> get_output_file_path fs file = ?base"
    by (simp add: def output_loop_absent)
  have b: "exists fs ?base \<longrightarrow>
      (\<exists>n\<ge>1. get_output_file_path fs file
                   = path_join CONVERTED_MEDIA_FOLDER (?S @ ''_converted_'' @ str_nat n @ ''.mp4'')
               \<and> \<not> exists fs (get_output_file_path fs file)
               \<and> (\<forall>m. 1 \<le> m \<and> m < n \<longrightarrow>
                     exists fs (path_join CONVERTED_MEDIA_FOLDER
                                  (?S @ ''_converted_'' @ str_nat m @ ''.mp4''))))"
  proof
    assume "exists fs ?base"
    from output_loop_present [OF this, of 1 ?S] show "\<exists>n\<ge>1. get_output_file_path fs file
                   = path_join CONVERTED_MEDIA_FOLDER (?S @ ''_converted_'' @ str_nat n @ ''.mp4'')
               \<and> \<not> exists fs (get_output_file_path fs file)
               \<and> (\<forall>m. 1 \<le> m \<and> m < n \<longrightarrow>
                     exists fs (path_join CONVERTED_MEDIA_FOLDER
                                  (?S @ ''_converted_'' @ str_nat m @ ''.mp4'')))"
      unfolding def converted_name_def by auto
  qed
  have c: "\<exists>s. get_output_file_path fs file = s @ ''.mp4''"
  proof (cases "exists fs ?base")
    case False
    with a have "get_output_file_path fs file = ?base" by simp
    moreover have "\<exists>s. ?base = s @ ''.mp4''"
      using path_join_ends [of CONVERTED_MEDIA_FOLDER "?S @ ''_converted''" "''.mp4''"] by simp
    ultimately show ?thesis by simp
  next
    case True
    with b obtain n where "get_output_file_path fs file
        = path_join CONVERTED_MEDIA_FOLDER (?S @ ''_converted_'' @ str_nat n @ ''.mp4'')" by blast
    moreover have "\<exists>s. path_join CONVERTED_MEDIA_FOLDER (?S @ ''_converted_'' @ str_nat n @ ''.mp4'')
                       = s @ ''.mp4''"
      using path_join_ends [of CONVERTED_MEDIA_FOLDER "?S @ ''_converted_'' @ str_nat n" "''.mp4''"]
      by simp
    ultimately show ?thesis by simp
  qed
  have d: "CHR ''/'' \<notin> set file \<longrightarrow>
        (\<forall>x. path_join CONVERTED_MEDIA_FOLDER (?S @ ''_converted'' @ x)
             = ''converted_media/'' @ ?S @ ''_converted'' @ x)"
  proof (intro impI allI)
    fix x assume "CHR ''/'' \<notin> set file"
    then have "CHR ''/'' \<notin> set ?S"
      using splitext_parts [of "file"] by (metis Un_iff set_append)
    then show "path_join CONVERTED_MEDIA_FOLDER (?S @ ''_converted'' @ x)
             = ''converted_media/'' @ ?S @ ''_converted'' @ x"
      by (rule path_join_entry) simp_all
  qed
  from a b c d show ?thesis by blast
qed

text \<open>
  The instance of the specification: \<open>clip.mov\<close>, with \<open>clip_converted.mp4\<close> present and
  \<open>clip_converted_1.mp4\<close> absent.
\<close>

theorem get_output_file_path_clip:
  "exists [(''converted_media/clip_converted.mp4'', File)]
     (path_join CONVERTED_MEDIA_FOLDER (fst (splitext ''clip.mov'') @ ''_converted.mp4''))
   \<and> \<not> exists [(''converted_media/clip_converted.mp4'', File)] ''converted_media/clip_converted_1.mp4''
   \<and> get_output_file_path [(''converted_media/clip_converted.mp4'', File)] ''clip.mov''
     = ''converted_media/clip_converted_1.mp4''
   \<and> \<not> exists [] (path_join CONVERTED_MEDIA_FOLDER (fst (splitext ''clip.mov'') @ ''_converted.mp4''))
   \<and> CHR ''/'' \<notin> set ''clip.mov''
   \<and> get_output_file_path [] ''clip.mov'' = ''converted_media/clip_converted.mp4''"
proof -
  have free: "\<not> exists [] (path_join CONVERTED_MEDIA_FOLDER
                             (fst (splitext ''clip.mov'') @ ''_converted.mp4''))"
    by code_simp
  have plain: "CHR ''/'' \<notin> set ''clip.mov''" by simp
  from get_output_file_path_allocates [of "[]" "''clip.mov''"] free plain
  have "get_output_file_path [] ''clip.mov''
          = path_join CONVERTED_MEDIA_FOLDER (fst (splitext ''clip.mov'') @ ''_converted.mp4'')"
    and "path_join CONVERTED_MEDIA_FOLDER (fst (splitext ''clip.mov'') @ ''_converted'' @ ''.mp4'')
          = ''converted_media/'' @ fst (splitext ''clip.mov'') @ ''_converted'' @ ''.mp4''"
    by blast+
  moreover have "fst (splitext ''clip.mov'') = ''clip''" by code_simp
  ultimately have base: "get_output_file_path [] ''clip.mov'' = ''converted_media/clip_converted.mp4''"
    by simp
  have ex: "exists [(''converted_media/clip_converted.mp4'', File)]
     (path_join CONVERTED_MEDIA_FOLDER (fst (splitext ''clip.mov'') @ ''_converted.mp4''))"
    by code_simp
  have nex: "\<not> exists [(''converted_media/clip_converted.mp4'', File)] ''converted_media/clip_converted_1.mp4''"
    by code_simp
  have S: "fst (splitext ''clip.mov'') = ''clip''" by code_simp
  from get_output_file_path_allocates [of "[(''converted_media/clip_converted.mp4'', File)]" "''clip.mov''"] ex
  obtain n where n: "1 \<le> n" "get_output_file_path [(''converted_media/clip_converted.mp4'', File)] ''clip.mov''
      = path_join CONVERTED_MEDIA_FOLDER (fst (splitext ''clip.mov'') @ ''_converted_'' @ str_nat n @ ''.mp4'')"
    "\<forall>m. 1 \<le> m \<and> m < n \<longrightarrow> exists [(''converted_media/clip_converted.mp4'', File)]
        (path_join CONVERTED_MEDIA_FOLDER (fst (splitext ''clip.mov'') @ ''_converted_'' @ str_nat m @ ''.mp4''))"
    by blast
  have "\<not> exists [(''converted_media/clip_converted.mp4'', File)]
        (path_join CONVERTED_MEDIA_FOLDER (fst (splitext ''clip.mov'') @ ''_converted_'' @ str_nat 1 @ ''.mp4''))"
    by code_simp
  with n(1,3) have "n = 1" by (cases "n = 1") auto
  moreover have "path_join CONVERTED_MEDIA_FOLDER (fst (splitext ''clip.mov'') @ ''_converted_'' @ str_nat 1 @ ''.mp4'')
      = ''converted_media/clip_converted_1.mp4''" by code_simp
  ultimately show ?thesis using n(2) ex nex free plain base by simp
qed

section \<open>Duration formatting\<close>

text \<open>
  C3. Hours and minutes are zero-padded to two digits, but the seconds are printed by
  \<open>{:.2f}\<close>, which pads nothing: 3725.4 seconds come out as \<open>01:02:5.40\<close>, not as
  \<open>01:02:05.40\<close>. The second conjunct takes the double nearest to 3725.4 in place of
  the decimal fraction.
\<close>

theorem format_duration_3725_4:
  "format_duration (37254 / 10) = ''01:02:5.40''
   \<and> format_duration (8192241236233421 / 2199023255552) = ''01:02:5.40''"
  by code_simp

section \<open>The sanitizer\<close>

lemma digit_char_clean: "d < 10 \<Longrightarrow> in_class (digit_char d) \<and> digit_char d \<noteq> CHR '' ''"
proof -
  assume d: "d < 10"
  then have v: "(of_char (digit_char d) :: nat) = 48 + d" by (rule digit_value)
  have "digit_char d \<noteq> CHR '' ''"
  proof
    assume "digit_char d = CHR '' ''"
    then have "(of_char (digit_char d) :: nat) = of_char CHR '' ''" by simp
    with v show False by simp
  qed
  moreover have "in_class (digit_char d)"
    using v d by (simp add: in_class_def Let_def)
  ultimately show ?thesis by simp
qed

lemma str_nat_clean: "c \<in> set (str_nat n) \<Longrightarrow> in_class c \<and> c \<noteq> CHR '' ''"
proof (induction n rule: str_nat.induct)
  case (1 n)
  show ?case
  proof (cases "n < 10")
    case True
    with "1.prems" show ?thesis by (simp add: str_nat.simps [of n] digit_char_clean)
  next
    case False
    with "1.prems" have "c \<in> set (str_nat (n div 10)) \<or> c = digit_char (n mod 10)"
      by (auto simp: str_nat.simps [of n])
    then show ?thesis
    proof
      assume "c \<in> set (str_nat (n div 10))"
      with "1.IH" False show ?thesis by simp
    next
      assume "c = digit_char (n mod 10)"
      then show ?thesis by (simp add: digit_char_clean)
    qed
  qed
qed

lemma sanitized_clean:
  "c \<in> set (replace_spaces (re_sub_strip file)) \<Longrightarrow> in_class c \<and> c \<noteq> CHR '' ''"
  by (auto simp: replace_spaces_def re_sub_strip_def in_class_def Let_def)

lemma counter_loop_result:
  "counter_loop fs p e c new = new \<or> (\<exists>k\<ge>c. counter_loop fs p e c new = numbered p k e)"
proof (induction fs p e c new rule: counter_loop.induct)
  case (1 fs p e c new)
  show ?case
  proof (cases "exists fs (path_join CONVERT_MEDIA_FOLDER (numbered p c e))")
    case False
    then show ?thesis by (simp add: counter_loop.simps [of fs p e c new])
  next
    case True
    then have step: "counter_loop fs p e c new = counter_loop fs p e (Suc c) (numbered p c e)"
      by (simp add: counter_loop.simps [of fs p e c new])
    from "1.IH" [OF True] show ?thesis
      unfolding step using Suc_leD by blast
  qed
qed

lemma counter_loop_free:
  "\<not> exists fs (path_join CONVERT_MEDIA_FOLDER (numbered p c e)) \<Longrightarrow> counter_loop fs p e c new = new"
  by (simp add: counter_loop.simps [of fs p e c new])

lemma numbered_clean:
  assumes "\<And>c. c \<in> set (p @ e) \<Longrightarrow> in_class c \<and> c \<noteq> CHR '' ''"
    and "c \<in> set (numbered p k e)"
  shows "in_class c \<and> c \<noteq> CHR '' ''"
proof -
  from assms(2) have "c \<in> set p \<or> c = CHR ''_'' \<or> c \<in> set (str_nat k) \<or> c \<in> set e"
    by (auto simp: numbered_def)
  moreover have "in_class CHR ''_''" by (simp add: in_class_def)
  ultimately show ?thesis using assms(1) str_nat_clean by auto
qed

lemma new_name_clean: "c \<in> set (new_name fs file) \<Longrightarrow> in_class c \<and> c \<noteq> CHR '' ''"
proof -
  let ?s = "replace_spaces (re_sub_strip file)"
  let ?p = "fst (splitext ?s)" and ?e = "snd (splitext ?s)"
  assume c: "c \<in> set (new_name fs file)"
  have nn: "new_name fs file = counter_loop fs ?p ?e 1 ?s"
    by (simp add: new_name_def Let_def split_beta)
  have parts: "in_class c \<and> c \<noteq> CHR '' ''" if "c \<in> set (?p @ ?e)" for c
  proof -
    from that have "c \<in> set ?s" by (simp only: splitext_parts)
    then show ?thesis by (rule sanitized_clean)
  qed
  from counter_loop_result [of fs ?p ?e 1 ?s]
  show ?thesis
  proof
    assume "counter_loop fs ?p ?e 1 ?s = ?s"
    with c nn show ?thesis using sanitized_clean by simp
  next
    assume "\<exists>k\<ge>1. counter_loop fs ?p ?e 1 ?s = numbered ?p k ?e"
    then obtain k where "counter_loop fs ?p ?e 1 ?s = numbered ?p k ?e" by blast
    with c nn have "c \<in> set (numbered ?p k ?e)" by simp
    with parts show ?thesis by (rule numbered_clean)
  qed
qed

lemma special_not_in_class: "c \<in> set special_chars \<Longrightarrow> \<not> in_class c \<or> c = CHR '' ''"
  by (auto simp: special_chars_def in_class_def)

lemma has_special_differs: "has_special file \<Longrightarrow> file \<noteq> new_name fs file"
proof
  assume h: "has_special file" and eq: "file = new_name fs file"
  from h obtain c where c: "c \<in> set file" "c \<in> set special_chars"
    by (auto simp: has_special_def list_ex_iff)
  from c(1) eq have "c \<in> set (new_name fs file)" by simp
  then have "in_class c \<and> c \<noteq> CHR '' ''" by (rule new_name_clean)
  with special_not_in_class [OF c(2)] show False by simp
qed




lemma prepare_loop_append:
  "prepare_loop (xs @ ys) w =
     (case prepare_loop xs w of Inl e \<Rightarrow> Inl e | Inr w' \<Rightarrow> prepare_loop ys w')"
  by (induction xs arbitrary: w) (auto split: sum.splits)

text \<open>
  C7, as amended. A rename is attempted only for a name that holds a listed character
  and differs from its new name. A rename that fails is not handled: the error leaves
  the loop at that entry, whatever entries follow, and \<open>prepare_files\<close> with it.
\<close>

theorem rename_failure_propagates:
  "(prepare_file file w \<noteq> Inr w \<longrightarrow> has_special file \<and> file \<noteq> new_name (disk w) file)
   \<and> (prepare_loop pre w0 = Inr w \<and> has_special file
       \<and> rename (disk w) (path_join CONVERT_MEDIA_FOLDER file)
            (path_join CONVERT_MEDIA_FOLDER (new_name (disk w) file)) = Inl e
      \<longrightarrow> prepare_loop (pre @ file # post) w0 = Inl e)"
proof -
  have a: "prepare_file file w \<noteq> Inr w \<longrightarrow> has_special file \<and> file \<noteq> new_name (disk w) file"
    by (auto simp: prepare_file_def Let_def split: if_splits)
  have b: "prepare_loop (pre @ file # post) w0 = Inl e"
    if "prepare_loop pre w0 = Inr w" and "has_special file"
      and "rename (disk w) (path_join CONVERT_MEDIA_FOLDER file)
            (path_join CONVERT_MEDIA_FOLDER (new_name (disk w) file)) = Inl e"
  proof -
    from that(2) have "file \<noteq> new_name (disk w) file" by (rule has_special_differs)
    with that(2,3) have "prepare_file file w = Inl e"
      by (simp add: prepare_file_def Let_def)
    with that(1) show ?thesis by (simp add: prepare_loop_append)
  qed
  from a b show ?thesis by blast
qed

theorem rename_failure_propagates_witness:
  "prepare_file ''a b'' \<lparr>disk = [(''convert_media/a b'', File), (''convert_media/a_b'', Dir),
                                 (''convert_media/c d'', File)], logged = [], procs = []\<rparr>
     \<noteq> Inr \<lparr>disk = [(''convert_media/a b'', File), (''convert_media/a_b'', Dir),
                     (''convert_media/c d'', File)], logged = [], procs = []\<rparr>
   \<and> ''a b'' \<noteq> new_name [(''convert_media/a b'', File), (''convert_media/a_b'', Dir),
                            (''convert_media/c d'', File)] ''a b''
   \<and> prepare_loop [''a b'', ''c d'']
        \<lparr>disk = [(''convert_media/a b'', File), (''convert_media/a_b'', Dir),
                  (''convert_media/c d'', File)], logged = [], procs = []\<rparr>
      = Inl IsADirectoryError"
proof -
  let ?w = "\<lparr>disk = [(''convert_media/a b'', File), (''convert_media/a_b'', Dir),
                     (''convert_media/c d'', File)], logged = [], procs = []\<rparr>"
  have ne: "prepare_file ''a b'' ?w \<noteq> Inr ?w" by code_simp
  have h: "has_special ''a b''" by code_simp
  have r: "rename (disk ?w) (path_join CONVERT_MEDIA_FOLDER ''a b'')
            (path_join CONVERT_MEDIA_FOLDER (new_name (disk ?w) ''a b'')) = Inl IsADirectoryError"
    by code_simp
  have p: "prepare_loop [] ?w = Inr ?w" by simp
  from rename_failure_propagates [of "''a b''" ?w "[]" ?w IsADirectoryError "[''c d'']"] ne h r p
  have "''a b'' \<noteq> new_name (disk ?w) ''a b''"
    and "prepare_loop ([] @ ''a b'' # [''c d'']) ?w = Inl IsADirectoryError"
    by blast+
  with ne show ?thesis by simp
qed

text \<open>
  The claim as first stated fails where the new name is taken by a directory: the
  error ends \<open>prepare_files\<close>, and \<open>c d\<close> is never reached.
\<close>

theorem rename_failure_aborts:
  "prepare_files \<lparr>disk = [(''convert_media/a b'', File), (''convert_media/a_b'', Dir),
                          (''convert_media/c d'', File)], logged = [], procs = []\<rparr>
     = Inl IsADirectoryError"
  by code_simp

lemma find_last_absent: "c \<notin> set xs \<Longrightarrow> find_last c xs i acc = acc"
  by (induction xs arbitrary: i acc) auto

lemma splitext_dotfile:
  assumes "CHR ''.'' \<notin> set e" and "CHR ''/'' \<notin> set e"
  shows "splitext (CHR ''.'' # e) = (CHR ''.'' # e, [])"
proof -
  have "rfind (CHR ''.'' # e) CHR ''.'' = 0"
    using assms(1) by (simp add: rfind_def find_last_absent)
  moreover have "rfind (CHR ''.'' # e) CHR ''/'' = - 1"
    using assms(2) by (simp add: rfind_def find_last_absent)
  moreover have "\<not> skip_dots (CHR ''.'' # e) 0 0"
    by (simp add: skip_dots.simps [of _ 0 0])
  ultimately show ?thesis by (simp add: splitext_def)
qed




text \<open>
  C1. The loop of lines 136 to 141 never tests the sanitized name itself, only the
  numbered candidates, and it keeps the last candidate that exists. Two files whose
  names sanitize alike in one pass end up as one entry, and so does a file whose
  sanitized name is already on disk: in both runs one file replaces the other.
\<close>

theorem colliding_names_overwrite:
  "map_sum id disk
     (prepare_files \<lparr>disk = [(''convert_media/a b.mov'', File), (''convert_media/a ?b.mov'', File)],
                      logged = [], procs = []\<rparr>)
     = Inr [(''convert_media/a_b.mov'', File)]
   \<and> map_sum id disk
       (prepare_files \<lparr>disk = [(''convert_media/a b.mov'', File), (''convert_media/a_b.mov'', File)],
                        logged = [], procs = []\<rparr>)
     = Inr [(''convert_media/a_b.mov'', File)]"
  by code_simp

section \<open>Validation and conversion of a batch\<close>

lemma logging_keeps [simp]:
  "disk (logging_info m w) = disk w" "procs (logging_info m w) = procs w"
  "disk (logging_error m w) = disk w" "procs (logging_error m w) = procs w"
  "logged (logging_info m w) = logged w @ [(INFO, m)]"
  "logged (logging_error m w) = logged w @ [(ERROR, m)]"
  by (simp_all add: logging_info_def logging_error_def)

lemma started_keeps [simp]:
  "disk (started c w) = disk w" "procs (started c w) = procs w @ [c]"
  "logged (started c w) = logged w"
  by (simp_all add: started_def)

lemma validate_file_disk: "disk (snd (validate_file en f (v, w))) = disk w"
  by (simp add: validate_file_def Let_def split_beta)

lemma validate_file_procs:
  "procs (snd (validate_file en f (v, w)))
     = procs w @ [validate_command (path_join CONVERT_MEDIA_FOLDER f)]"
  by (simp add: validate_file_def Let_def split_beta)

lemma validate_file_valid:
  "fst (validate_file en f (v, w)) = v @ (if probe_ok en (disk w) f then [f] else [])"
  by (simp add: validate_file_def Let_def split_beta probe_ok_def)

lemma validate_file_logged:
  "\<exists>l. logged (snd (validate_file en f (v, w))) = logged w @ l
       \<and> (fst (run_ffprobe en (validate_command (path_join CONVERT_MEDIA_FOLDER f)) (disk w)) \<noteq> 0
            \<longrightarrow> (ERROR, validate_error_message f) \<in> set l)"
  by (simp add: validate_file_def Let_def split_beta)

lemma validate_loop_disk: "disk (snd (validate_loop en fs (v, w))) = disk w"
proof (induction fs arbitrary: v w)
  case Nil show ?case by simp
next
  case (Cons f fs)
  obtain v' w' where s: "validate_file en f (v, w) = (v', w')" by (cases "validate_file en f (v, w)")
  then have "disk w' = disk w" using validate_file_disk [of en f v w] by simp
  with Cons.IH [of v' w'] s show ?case by simp
qed

lemma validate_loop_procs:
  "procs (snd (validate_loop en fs (v, w)))
     = procs w @ map (\<lambda>f. validate_command (path_join CONVERT_MEDIA_FOLDER f)) fs"
proof (induction fs arbitrary: v w)
  case Nil show ?case by simp
next
  case (Cons f fs)
  obtain v' w' where s: "validate_file en f (v, w) = (v', w')" by (cases "validate_file en f (v, w)")
  then have "procs w' = procs w @ [validate_command (path_join CONVERT_MEDIA_FOLDER f)]"
    using validate_file_procs [of en f v w] by simp
  with Cons.IH [of v' w'] s show ?case by simp
qed

lemma validate_loop_valid:
  "fst (validate_loop en fs (v, w)) = v @ filter (probe_ok en (disk w)) fs"
proof (induction fs arbitrary: v w)
  case Nil show ?case by simp
next
  case (Cons f fs)
  obtain v' w' where s: "validate_file en f (v, w) = (v', w')" by (cases "validate_file en f (v, w)")
  then have "disk w' = disk w" and "v' = v @ (if probe_ok en (disk w) f then [f] else [])"
    using validate_file_disk [of en f v w] validate_file_valid [of en f v w] by simp_all
  with Cons.IH [of v' w'] s show ?case by simp
qed

lemma validate_loop_logged:
  "\<exists>l. logged (snd (validate_loop en fs (v, w))) = logged w @ l
       \<and> (\<forall>X\<in>set fs.
             fst (run_ffprobe en (validate_command (path_join CONVERT_MEDIA_FOLDER X)) (disk w)) \<noteq> 0
             \<longrightarrow> (ERROR, validate_error_message X) \<in> set l)"
proof (induction fs arbitrary: v w)
  case Nil show ?case by simp
next
  case (Cons f fs)
  obtain v' w' where s: "validate_file en f (v, w) = (v', w')" by (cases "validate_file en f (v, w)")
  then have d: "disk w' = disk w" using validate_file_disk [of en f v w] by simp
  from validate_file_logged [of en f v w] s obtain l1 where l1: "logged w' = logged w @ l1"
    "fst (run_ffprobe en (validate_command (path_join CONVERT_MEDIA_FOLDER f)) (disk w)) \<noteq> 0
       \<longrightarrow> (ERROR, validate_error_message f) \<in> set l1" by auto
  from Cons.IH [of v' w'] obtain l2 where l2:
    "logged (snd (validate_loop en fs (v', w'))) = logged w' @ l2"
    "\<forall>X\<in>set fs.
       fst (run_ffprobe en (validate_command (path_join CONVERT_MEDIA_FOLDER X)) (disk w')) \<noteq> 0
       \<longrightarrow> (ERROR, validate_error_message X) \<in> set l2" by blast
  have "logged (snd (validate_loop en (f # fs) (v, w))) = logged w @ (l1 @ l2)"
    using s l1(1) l2(1) by simp
  moreover have "\<forall>X\<in>set (f # fs).
       fst (run_ffprobe en (validate_command (path_join CONVERT_MEDIA_FOLDER X)) (disk w)) \<noteq> 0
       \<longrightarrow> (ERROR, validate_error_message X) \<in> set (l1 @ l2)"
    using l1(2) l2(2) d by auto
  ultimately show ?case by blast
qed

lemma convert_video_procs:
  "procs (convert_video en f w)
     = procs w @ [convert_command (path_join CONVERT_MEDIA_FOLDER f) (get_output_file_path (disk w) f)]"
  by (simp add: convert_video_def Let_def split_beta)

lemma convert_video_logged:
  "logged (convert_video en f w)
     = logged w @ [(INFO, ''Start file conversion for file '' @ f @ ''.''),
         (let r = run_ffmpeg en (convert_command (path_join CONVERT_MEDIA_FOLDER f)
                                  (get_output_file_path (disk w) f)) (disk w)
          in if fst r = 0 then (INFO, ''Conversion complete for file: '' @ f @ ''.'')
             else (ERROR, convert_error_message f (fst (snd r))))]"
  by (simp add: convert_video_def Let_def split_beta)

lemma convert_loop_append:
  "convert_loop en (xs @ ys) w = convert_loop en ys (convert_loop en xs w)"
  by (induction xs arbitrary: w) simp_all

lemma convert_loop_logged: "\<exists>l. logged (convert_loop en fs w) = logged w @ l"
proof (induction fs arbitrary: w)
  case Nil show ?case by simp
next
  case (Cons f fs)
  from Cons.IH [of "convert_video en f w"] show ?case
    by (auto simp: convert_video_logged)
qed

lemma convert_loop_procs:
  "\<exists>outs. length outs = length fs
     \<and> procs (convert_loop en fs w)
         = procs w @ map (\<lambda>(f, out). convert_command (path_join CONVERT_MEDIA_FOLDER f) out) (zip fs outs)"
proof (induction fs arbitrary: w)
  case Nil show ?case by simp
next
  case (Cons f fs)
  from Cons.IH [of "convert_video en f w"] obtain outs where o: "length outs = length fs"
    "procs (convert_loop en fs (convert_video en f w))
       = procs (convert_video en f w)
         @ map (\<lambda>(f, out). convert_command (path_join CONVERT_MEDIA_FOLDER f) out) (zip fs outs)"
    by blast
  show ?case
    by (rule exI [of _ "get_output_file_path (disk w) f # outs"]) (simp add: o convert_video_procs)
qed

text \<open>
  C4. Every file of the input set is probed, in order, whatever the outcome of the
  files before it; a file whose probe exits non-zero is left out of the valid list and
  an error naming it is logged. Every file handed to the conversion loop has its
  conversion command started, in order; when the converter exits non-zero for a file,
  an error with the captured diagnostics is logged and the loop goes on with the
  files after it.
\<close>

theorem failures_leave_the_batch_running:
  "procs (snd (validate_files en files w))
     = procs w @ map (\<lambda>f. validate_command (path_join CONVERT_MEDIA_FOLDER f)) files
   \<and> fst (validate_files en files w) = filter (probe_ok en (disk w)) files
   \<and> (\<forall>X\<in>set files.
         fst (run_ffprobe en (validate_command (path_join CONVERT_MEDIA_FOLDER X)) (disk w)) \<noteq> 0
         \<longrightarrow> X \<notin> set (fst (validate_files en files w))
             \<and> (ERROR, validate_error_message X) \<in> set (logged (snd (validate_files en files w))))
   \<and> (\<exists>outs. length outs = length files
         \<and> procs (convert_loop en files w)
             = procs w @ map (\<lambda>(f, out). convert_command (path_join CONVERT_MEDIA_FOLDER f) out)
                           (zip files outs))
   \<and> (\<forall>pre X post. files = pre @ X # post
         \<and> fst (run_ffmpeg en (convert_command (path_join CONVERT_MEDIA_FOLDER X)
                                  (get_output_file_path (disk (convert_loop en pre w)) X))
                   (disk (convert_loop en pre w))) \<noteq> 0
         \<longrightarrow> convert_loop en files w = convert_loop en post (convert_video en X (convert_loop en pre w))
             \<and> (ERROR, convert_error_message X
                   (fst (snd (run_ffmpeg en (convert_command (path_join CONVERT_MEDIA_FOLDER X)
                                  (get_output_file_path (disk (convert_loop en pre w)) X))
                   (disk (convert_loop en pre w))))))
                 \<in> set (logged (convert_loop en files w)))"
proof -
  have a: "procs (snd (validate_files en files w))
     = procs w @ map (\<lambda>f. validate_command (path_join CONVERT_MEDIA_FOLDER f)) files"
    by (simp add: validate_files_def validate_loop_procs)
  have b: "fst (validate_files en files w) = filter (probe_ok en (disk w)) files"
    by (simp add: validate_files_def validate_loop_valid)
  have c: "\<forall>X\<in>set files.
         fst (run_ffprobe en (validate_command (path_join CONVERT_MEDIA_FOLDER X)) (disk w)) \<noteq> 0
         \<longrightarrow> X \<notin> set (fst (validate_files en files w))
             \<and> (ERROR, validate_error_message X) \<in> set (logged (snd (validate_files en files w)))"
  proof (intro ballI impI)
    fix X assume X: "X \<in> set files"
      and rc: "fst (run_ffprobe en (validate_command (path_join CONVERT_MEDIA_FOLDER X)) (disk w)) \<noteq> 0"
    from rc have "X \<notin> set (fst (validate_files en files w))"
      by (simp add: b probe_ok_def)
    moreover from validate_loop_logged [of en files "[]" w] X rc
    have "(ERROR, validate_error_message X) \<in> set (logged (snd (validate_files en files w)))"
      by (auto simp: validate_files_def)
    ultimately show "X \<notin> set (fst (validate_files en files w))
             \<and> (ERROR, validate_error_message X) \<in> set (logged (snd (validate_files en files w)))"
      by simp
  qed
  have d: "\<exists>outs. length outs = length files
         \<and> procs (convert_loop en files w)
             = procs w @ map (\<lambda>(f, out). convert_command (path_join CONVERT_MEDIA_FOLDER f) out)
                           (zip files outs)"
    by (rule convert_loop_procs)
  have e: "\<forall>pre X post. files = pre @ X # post
         \<and> fst (run_ffmpeg en (convert_command (path_join CONVERT_MEDIA_FOLDER X)
                                  (get_output_file_path (disk (convert_loop en pre w)) X))
                   (disk (convert_loop en pre w))) \<noteq> 0
         \<longrightarrow> convert_loop en files w = convert_loop en post (convert_video en X (convert_loop en pre w))
             \<and> (ERROR, convert_error_message X
                   (fst (snd (run_ffmpeg en (convert_command (path_join CONVERT_MEDIA_FOLDER X)
                                  (get_output_file_path (disk (convert_loop en pre w)) X))
                   (disk (convert_loop en pre w))))))
                 \<in> set (logged (convert_loop en files w))"
  proof (intro allI impI, elim conjE)
    fix pre X post
    let ?w1 = "convert_loop en pre w"
    let ?r = "run_ffmpeg en (convert_command (path_join CONVERT_MEDIA_FOLDER X)
                                  (get_output_file_path (disk ?w1) X)) (disk ?w1)"
    assume f: "files = pre @ X # post" and rc: "fst ?r \<noteq> 0"
    have split: "convert_loop en files w = convert_loop en post (convert_video en X ?w1)"
      by (simp add: f convert_loop_append)
    from rc have "(ERROR, convert_error_message X (fst (snd ?r))) \<in> set (logged (convert_video en X ?w1))"
      by (simp add: convert_video_logged Let_def)
    moreover obtain l where "logged (convert_loop en post (convert_video en X ?w1))
        = logged (convert_video en X ?w1) @ l"
      using convert_loop_logged by blast
    ultimately have "(ERROR, convert_error_message X (fst (snd ?r))) \<in> set (logged (convert_loop en files w))"
      by (simp add: split)
    with split show "convert_loop en files w = convert_loop en post (convert_video en X ?w1)
             \<and> (ERROR, convert_error_message X (fst (snd ?r))) \<in> set (logged (convert_loop en files w))"
      by simp
  qed
  from a b c d e show ?thesis by blast
qed

theorem failures_leave_the_batch_running_witness:
  "fst (validate_files demo_env [''bad.avi'', ''odd.mov'', ''good.mov'']
          \<lparr>disk = [], logged = [], procs = []\<rparr>) = [''odd.mov'', ''good.mov'']
   \<and> procs (snd (validate_files demo_env [''bad.avi'', ''odd.mov'', ''good.mov'']
                    \<lparr>disk = [], logged = [], procs = []\<rparr>))
       = [validate_command ''convert_media/bad.avi'', validate_command ''convert_media/odd.mov'',
          validate_command ''convert_media/good.mov'']
   \<and> (ERROR, validate_error_message ''bad.avi'')
       \<in> set (logged (snd (validate_files demo_env [''bad.avi'', ''odd.mov'', ''good.mov'']
                               \<lparr>disk = [], logged = [], procs = []\<rparr>)))
   \<and> length (procs (convert_loop demo_env [''odd.mov'', ''good.mov'']
                       \<lparr>disk = [], logged = [], procs = []\<rparr>)) = 2
   \<and> (ERROR, convert_error_message ''odd.mov'' (''Conversion failed!'' @ [CHR 0x0A]))
       \<in> set (logged (convert_loop demo_env [''odd.mov'', ''good.mov'']
                         \<lparr>disk = [], logged = [], procs = []\<rparr>))"
proof -
  let ?w = "\<lparr>disk = [], logged = [], procs = []\<rparr>"
  let ?fs = "[''bad.avi'', ''odd.mov'', ''good.mov'']"
  let ?vs = "[''odd.mov'', ''good.mov'']"
  note V = failures_leave_the_batch_running [of demo_env ?fs ?w]
  note C = failures_leave_the_batch_running [of demo_env ?vs ?w]
  have bad: "fst (run_ffprobe demo_env (validate_command (path_join CONVERT_MEDIA_FOLDER ''bad.avi''))
                    (disk ?w)) \<noteq> 0"
    by code_simp
  have flt: "filter (probe_ok demo_env (disk ?w)) ?fs = ?vs" by code_simp
  have pj: "map (\<lambda>f. validate_command (path_join CONVERT_MEDIA_FOLDER f)) ?fs
      = [validate_command ''convert_media/bad.avi'', validate_command ''convert_media/odd.mov'',
         validate_command ''convert_media/good.mov'']" by code_simp
  from V have 1: "fst (validate_files demo_env ?fs ?w) = filter (probe_ok demo_env (disk ?w)) ?fs"
    and 2: "procs (snd (validate_files demo_env ?fs ?w))
             = procs ?w @ map (\<lambda>f. validate_command (path_join CONVERT_MEDIA_FOLDER f)) ?fs"
    by blast+
  have mem: "''bad.avi'' \<in> set ?fs" by simp
  from V mem bad have 3: "(ERROR, validate_error_message ''bad.avi'')
       \<in> set (logged (snd (validate_files demo_env ?fs ?w)))"
    by blast
  from C obtain outs where o: "length outs = length ?vs"
    "procs (convert_loop demo_env ?vs ?w)
       = procs ?w @ map (\<lambda>(f, out). convert_command (path_join CONVERT_MEDIA_FOLDER f) out)
                      (zip ?vs outs)"
    by blast
  then have 4: "length (procs (convert_loop demo_env ?vs ?w)) = 2" by simp
  have sp: "?vs = [] @ ''odd.mov'' # [''good.mov'']" by simp
  have rc: "fst (run_ffmpeg demo_env (convert_command (path_join CONVERT_MEDIA_FOLDER ''odd.mov'')
                    (get_output_file_path (disk (convert_loop demo_env [] ?w)) ''odd.mov''))
                  (disk (convert_loop demo_env [] ?w))) \<noteq> 0"
    by code_simp
  have err: "fst (snd (run_ffmpeg demo_env (convert_command (path_join CONVERT_MEDIA_FOLDER ''odd.mov'')
                    (get_output_file_path (disk (convert_loop demo_env [] ?w)) ''odd.mov''))
                  (disk (convert_loop demo_env [] ?w)))) = ''Conversion failed!'' @ [CHR 0x0A]"
    by code_simp
  from C sp rc have "(ERROR, convert_error_message ''odd.mov''
        (fst (snd (run_ffmpeg demo_env (convert_command (path_join CONVERT_MEDIA_FOLDER ''odd.mov'')
                    (get_output_file_path (disk (convert_loop demo_env [] ?w)) ''odd.mov''))
                  (disk (convert_loop demo_env [] ?w))))))
       \<in> set (logged (convert_loop demo_env ?vs ?w))"
    by blast
  then have 5: "(ERROR, convert_error_message ''odd.mov'' (''Conversion failed!'' @ [CHR 0x0A]))
       \<in> set (logged (convert_loop demo_env ?vs ?w))"
    by (simp only: err)
  from 1 2 3 4 5 flt pj show ?thesis by simp
qed


section \<open>The inspector\<close>

lemma and_then_simps [simp]: "and_then (Inl e) f = Inl e" "and_then (Inr x) f = f x"
  by (simp_all add: and_then_def)

lemma and_then_Inr_iff: "and_then r f = Inr y \<longleftrightarrow> (\<exists>x. r = Inr x \<and> f x = Inr y)"
  by (cases r) simp_all

lemma inspect_stream_keeps:
  "inspect_stream en s w = Inr w' \<Longrightarrow>
     disk w' = disk w \<and> procs w' = procs w \<and> (\<exists>l. logged w' = logged w @ l)"
  by (auto simp: inspect_stream_def and_then_Inr_iff Let_def split: if_splits)

lemma inspect_streams_keeps:
  "inspect_streams en ss w = Inr w' \<Longrightarrow>
     disk w' = disk w \<and> procs w' = procs w \<and> (\<exists>l. logged w' = logged w @ l)"
proof (induction ss arbitrary: w)
  case Nil then show ?case by simp
next
  case (Cons s ss)
  from Cons.prems obtain w1 where 1: "inspect_stream en s w = Inr w1"
    and 2: "inspect_streams en ss w1 = Inr w'"
    by (auto simp: and_then_Inr_iff)
  from inspect_stream_keeps [OF 1] Cons.IH [OF 2] show ?case by auto
qed

lemma report_Inr:
  "report en label f result w = Inr w' \<Longrightarrow>
     \<exists>a b c streams.
       inspect_streams en streams
         (logging_info c (logging_info b (logging_info a (logging_info (label @ f) w)))) = Inr w'"
proof -
  assume r: "report en label f result w = Inr w'"
  show ?thesis
  proof (cases "json_loads en result")
    case None
    with r show ?thesis by (simp add: report_def)
  next
    case (Some data)
    with r show ?thesis
      by (simp add: report_def and_then_Inr_iff Let_def) blast
  qed
qed

lemma report_keeps:
  "report en label f result w = Inr w' \<Longrightarrow>
     disk w' = disk w \<and> procs w' = procs w
     \<and> (\<exists>l. logged w' = logged w @ (INFO, label @ f) # l)"
proof -
  assume "report en label f result w = Inr w'"
  from report_Inr [OF this] obtain a b c streams where
    "inspect_streams en streams
       (logging_info c (logging_info b (logging_info a (logging_info (label @ f) w)))) = Inr w'"
    by blast
  from inspect_streams_keeps [OF this] show ?thesis by auto
qed

lemma inspect_file_keeps:
  "inspect_file en folder label fname f w = Inr w' \<Longrightarrow>
     disk w' = disk w \<and> procs w' = procs w @ [inspect_command (path_join folder f)]
     \<and> (\<exists>l. logged w' = logged w @ l
            \<and> ((INFO, label @ f) \<in> set l
                \<or> (\<exists>rc. (ERROR, inspect_error_message en fname f
                                   (inspect_command (path_join folder f)) rc) \<in> set l)))"
proof -
  let ?cmd = "inspect_command (path_join folder f)"
  let ?r = "run_ffprobe en ?cmd (disk w)"
  assume i: "inspect_file en folder label fname f w = Inr w'"
  show ?thesis
  proof (cases "fst ?r = 0")
    case True
    with i have "report en label f (snd ?r) (started ?cmd w) = Inr w'"
      by (simp add: inspect_file_def Let_def split_beta)
    from report_keeps [OF this] show ?thesis by auto
  next
    case False
    with i have "w' = logging_error (inspect_error_message en fname f ?cmd (fst ?r)) (started ?cmd w)"
      by (simp add: inspect_file_def Let_def split_beta)
    then show ?thesis by auto
  qed
qed

lemma inspect_loop_keeps:
  "inspect_loop en folder label fname fs w = Inr w' \<Longrightarrow>
     disk w' = disk w
     \<and> procs w' = procs w @ map (\<lambda>f. inspect_command (path_join folder f)) fs
     \<and> (\<exists>l. logged w' = logged w @ l
            \<and> (\<forall>f\<in>set fs. (INFO, label @ f) \<in> set l
                  \<or> (\<exists>rc. (ERROR, inspect_error_message en fname f
                                     (inspect_command (path_join folder f)) rc) \<in> set l)))"
proof (induction fs arbitrary: w)
  case Nil then show ?case by simp
next
  case (Cons f fs)
  from Cons.prems obtain w1 where 1: "inspect_file en folder label fname f w = Inr w1"
    and 2: "inspect_loop en folder label fname fs w1 = Inr w'"
    by (auto simp: and_then_Inr_iff)
  from inspect_file_keeps [OF 1] obtain l1 where l1: "disk w1 = disk w"
    "procs w1 = procs w @ [inspect_command (path_join folder f)]"
    "logged w1 = logged w @ l1"
    "(INFO, label @ f) \<in> set l1
       \<or> (\<exists>rc. (ERROR, inspect_error_message en fname f
                          (inspect_command (path_join folder f)) rc) \<in> set l1)"
    by blast
  from Cons.IH [OF 2] obtain l2 where l2: "disk w' = disk w1"
    "procs w' = procs w1 @ map (\<lambda>f. inspect_command (path_join folder f)) fs"
    "logged w' = logged w1 @ l2"
    "\<forall>f\<in>set fs. (INFO, label @ f) \<in> set l2
         \<or> (\<exists>rc. (ERROR, inspect_error_message en fname f
                            (inspect_command (path_join folder f)) rc) \<in> set l2)"
    by blast
  have "logged w' = logged w @ (l1 @ l2)" using l1(3) l2(3) by simp
  moreover have "\<forall>g\<in>set (f # fs). (INFO, label @ g) \<in> set (l1 @ l2)
         \<or> (\<exists>rc. (ERROR, inspect_error_message en fname g
                            (inspect_command (path_join folder g)) rc) \<in> set (l1 @ l2))"
    using l1(4) l2(4) by auto
  ultimately show ?case using l1(1,2) l2(1,2) by auto
qed

lemma in_listdir:
  assumes "(p, k) \<in> set fs" and "child_name folder p = Some n"
  shows "n \<in> set (listdir fs folder)"
proof -
  have "n \<in> (the \<circ> (\<lambda>(p, k). child_name folder p)) ` {x \<in> set fs. (\<lambda>(p, k). child_name folder p) x \<noteq> None}"
    using assms by force
  then show ?thesis by (simp add: listdir_def List.map_filter_def)
qed

lemma regular_file_listed:
  assumes "isfile fs (''converted_media/'' @ n)" and "n \<noteq> []" and "CHR ''/'' \<notin> set n"
  shows "n \<in> set (files_in fs CONVERTED_MEDIA_FOLDER)"
    and "path_join CONVERTED_MEDIA_FOLDER n = ''converted_media/'' @ n"
proof -
  have "CHR ''/'' \<notin> set (take 1 n)" using assms(3) by (meson in_set_takeD)
  with path_join_entry [of "[]" n] assms(2)
  show pj: "path_join CONVERTED_MEDIA_FOLDER n = ''converted_media/'' @ n" by simp
  from assms(1) have "(''converted_media/'' @ n, File) \<in> set fs"
    by (simp add: isfile_def map_of_SomeD)
  moreover have "child_name CONVERTED_MEDIA_FOLDER (''converted_media/'' @ n) = Some n"
    using assms(2,3) by (simp add: child_name_def CONVERTED_MEDIA_FOLDER_def)
  ultimately have "n \<in> set (listdir fs CONVERTED_MEDIA_FOLDER)" by (rule in_listdir)
  with assms(1) pj show "n \<in> set (files_in fs CONVERTED_MEDIA_FOLDER)"
    by (simp add: files_in_def)
qed


lemma demo_streams_pass:
  "\<not> isl (inspect_streams demo_env
            [JObj [(''codec_name'', JStr ''h264''), (''codec_type'', JStr ''video''),
                   (''width'', JInt 1280), (''height'', JInt 720)],
             JObj [(''codec_type'', JStr ''audio'')]] w)"
  by (simp add: inspect_stream_def getitem_def has_key_def)

lemma demo_report_passes: "\<not> isl (report demo_env label f demo_json_text w)"
proof -
  have j: "json_loads demo_env demo_json_text = Some demo_json" by code_simp
  have d: "and_then (and_then (getitem demo_json ''format'') (\<lambda>f. getitem f ''duration''))
             (py_float demo_env) = Inr (37254 / 10)" by code_simp
  have b: "and_then (and_then (getitem demo_json ''format'') (\<lambda>f. getitem f ''bit_rate''))
             (py_float demo_env) = Inr 1000000" by code_simp
  have s: "and_then (and_then (getitem demo_json ''format'') (\<lambda>f. getitem f ''size''))
             (py_float demo_env) = Inr 1048576" by code_simp
  have t: "and_then (getitem demo_json ''streams'') iterate
           = Inr [JObj [(''codec_name'', JStr ''h264''), (''codec_type'', JStr ''video''),
                        (''width'', JInt 1280), (''height'', JInt 720)],
                  JObj [(''codec_type'', JStr ''audio'')]]" by code_simp
  show ?thesis
    unfolding report_def j option.case d b s t and_then_simps Let_def
    by (rule demo_streams_pass)
qed

lemma demo_probe_old:
  "run_ffprobe demo_env (inspect_command (path_join CONVERTED_MEDIA_FOLDER ''old_converted.mp4'')) fs
     = (0, demo_json_text)"
  by code_simp

lemma demo_probe_gone:
  "fst (run_ffprobe demo_env (inspect_command (path_join CONVERTED_MEDIA_FOLDER ''gone.mp4'')) fs) = 1"
  by code_simp

lemma demo_loop_passes:
  "\<not> isl (inspect_loop demo_env CONVERTED_MEDIA_FOLDER label fname
            [''old_converted.mp4'', ''gone.mp4''] w)"
proof -
  have "\<not> isl (inspect_file demo_env CONVERTED_MEDIA_FOLDER label fname ''old_converted.mp4'' w)"
    by (simp add: inspect_file_def demo_probe_old demo_report_passes)
  then obtain w2 where 1:
    "inspect_file demo_env CONVERTED_MEDIA_FOLDER label fname ''old_converted.mp4'' w = Inr w2"
    by (cases "inspect_file demo_env CONVERTED_MEDIA_FOLDER label fname ''old_converted.mp4'' w")
       simp_all
  have 2: "\<not> isl (inspect_file demo_env CONVERTED_MEDIA_FOLDER label fname ''gone.mp4'' w2)"
    by (simp add: inspect_file_def Let_def split_beta demo_probe_gone)
  then obtain w3 where 3:
    "inspect_file demo_env CONVERTED_MEDIA_FOLDER label fname ''gone.mp4'' w2 = Inr w3"
    by (cases "inspect_file demo_env CONVERTED_MEDIA_FOLDER label fname ''gone.mp4'' w2") simp_all
  show ?thesis by (simp add: 1 3)
qed


text \<open>
  C6, as amended. A probe that exits non-zero is contained: the error is logged and
  the loop goes on with the remaining files. A probe that succeeds with output that
  cannot be parsed, or that lacks the \<open>format\<close> field, is not: the exception
  (\<open>JSONDecodeError\<close>, \<open>KeyError\<close>, \<open>TypeError\<close>) leaves the loop and \<open>inspect_files\<close>,
  and the remaining files are not inspected.
\<close>

theorem unparsable_output_propagates:
  "(fst (run_ffprobe en (inspect_command (path_join folder f)) (disk w)) \<noteq> 0
      \<longrightarrow> inspect_loop en folder label fname (f # fs) w
          = inspect_loop en folder label fname fs
              (logging_error
                 (inspect_error_message en fname f (inspect_command (path_join folder f))
                    (fst (run_ffprobe en (inspect_command (path_join folder f)) (disk w))))
                 (started (inspect_command (path_join folder f)) w)))
   \<and> (fst (run_ffprobe en (inspect_command (path_join folder f)) (disk w)) = 0
       \<and> json_loads en (snd (run_ffprobe en (inspect_command (path_join folder f)) (disk w))) = None
      \<longrightarrow> inspect_loop en folder label fname (f # fs) w = Inl JSONDecodeError)
   \<and> (fst (run_ffprobe en (inspect_command (path_join folder f)) (disk w)) = 0
       \<and> json_loads en (snd (run_ffprobe en (inspect_command (path_join folder f)) (disk w)))
           = Some data
       \<and> getitem data ''format'' = Inl e
      \<longrightarrow> inspect_loop en folder label fname (f # fs) w = Inl e)
   \<and> (inspect_loop en CONVERT_MEDIA_FOLDER ''File: '' ''inspect_file'' (f # fs)
         (logging_info ''Inspecting validated files:'' w) = Inl e
      \<longrightarrow> inspect_files en (f # fs) w = Inl e)"
proof -
  let ?cmd = "inspect_command (path_join folder f)"
  let ?r = "run_ffprobe en ?cmd (disk w)"
  have a: "fst ?r \<noteq> 0 \<longrightarrow> inspect_loop en folder label fname (f # fs) w
          = inspect_loop en folder label fname fs
              (logging_error (inspect_error_message en fname f ?cmd (fst ?r)) (started ?cmd w))"
    by (simp add: inspect_file_def Let_def split_beta)
  have b: "fst ?r = 0 \<and> json_loads en (snd ?r) = None
      \<longrightarrow> inspect_loop en folder label fname (f # fs) w = Inl JSONDecodeError"
    by (simp add: inspect_file_def Let_def split_beta report_def)
  have c: "fst ?r = 0 \<and> json_loads en (snd ?r) = Some data \<and> getitem data ''format'' = Inl e
      \<longrightarrow> inspect_loop en folder label fname (f # fs) w = Inl e"
    by (simp add: inspect_file_def Let_def split_beta report_def)
  have d: "inspect_loop en CONVERT_MEDIA_FOLDER ''File: '' ''inspect_file'' (f # fs)
         (logging_info ''Inspecting validated files:'' w) = Inl e
      \<longrightarrow> inspect_files en (f # fs) w = Inl e"
    by (simp add: inspect_files_def)
  from a b c d show ?thesis by blast
qed

theorem unparsable_output_propagates_witness:
  "inspect_loop demo_env CONVERTED_MEDIA_FOLDER ''Converted File: '' ''inspect_converted_files''
     [''gone.mp4'', ''old.mp4''] \<lparr>disk = [], logged = [], procs = []\<rparr>
   = inspect_loop demo_env CONVERTED_MEDIA_FOLDER ''Converted File: '' ''inspect_converted_files''
       [''old.mp4'']
       (logging_error
          (inspect_error_message demo_env ''inspect_converted_files'' ''gone.mp4''
             (inspect_command ''converted_media/gone.mp4'') 1)
          (started (inspect_command ''converted_media/gone.mp4'')
             \<lparr>disk = [], logged = [], procs = []\<rparr>))
   \<and> inspect_loop demo_env CONVERT_MEDIA_FOLDER ''File: '' ''inspect_file''
       [''odd.mov'', ''good.mov''] \<lparr>disk = [], logged = [], procs = []\<rparr> = Inl JSONDecodeError
   \<and> inspect_loop demo_env CONVERT_MEDIA_FOLDER ''File: '' ''inspect_file''
       [''empty.mov'', ''good.mov''] \<lparr>disk = [], logged = [], procs = []\<rparr> = Inl (KeyError ''format'')
   \<and> inspect_files demo_env [''odd.mov'', ''good.mov''] \<lparr>disk = [], logged = [], procs = []\<rparr>
       = Inl JSONDecodeError"
proof -
  let ?w = "\<lparr>disk = [], logged = [], procs = []\<rparr>"
  have g1: "fst (run_ffprobe demo_env (inspect_command (path_join CONVERTED_MEDIA_FOLDER ''gone.mp4''))
                   (disk ?w)) \<noteq> 0" by code_simp
  have g2: "fst (run_ffprobe demo_env (inspect_command ''converted_media/gone.mp4'') (disk ?w)) = 1"
    by code_simp
  have g3: "path_join CONVERTED_MEDIA_FOLDER ''gone.mp4'' = ''converted_media/gone.mp4''" by code_simp
  from unparsable_output_propagates [of demo_env CONVERTED_MEDIA_FOLDER "''gone.mp4''" ?w
      "''Converted File: ''" "''inspect_converted_files''" "[''old.mp4'']"] g1
  have "inspect_loop demo_env CONVERTED_MEDIA_FOLDER ''Converted File: '' ''inspect_converted_files''
         (''gone.mp4'' # [''old.mp4'']) ?w
       = inspect_loop demo_env CONVERTED_MEDIA_FOLDER ''Converted File: '' ''inspect_converted_files''
           [''old.mp4'']
           (logging_error
             (inspect_error_message demo_env ''inspect_converted_files'' ''gone.mp4''
                (inspect_command (path_join CONVERTED_MEDIA_FOLDER ''gone.mp4''))
                (fst (run_ffprobe demo_env
                        (inspect_command (path_join CONVERTED_MEDIA_FOLDER ''gone.mp4'')) (disk ?w))))
             (started (inspect_command (path_join CONVERTED_MEDIA_FOLDER ''gone.mp4'')) ?w))"
    by blast
  then have 1: "inspect_loop demo_env CONVERTED_MEDIA_FOLDER ''Converted File: '' ''inspect_converted_files''
         [''gone.mp4'', ''old.mp4''] ?w
       = inspect_loop demo_env CONVERTED_MEDIA_FOLDER ''Converted File: '' ''inspect_converted_files''
           [''old.mp4'']
           (logging_error
             (inspect_error_message demo_env ''inspect_converted_files'' ''gone.mp4''
                (inspect_command ''converted_media/gone.mp4'') 1)
             (started (inspect_command ''converted_media/gone.mp4'') ?w))"
    by (simp only: g3 g2)
  have o1: "fst (run_ffprobe demo_env (inspect_command (path_join CONVERT_MEDIA_FOLDER ''odd.mov''))
                   (disk ?w)) = 0
            \<and> json_loads demo_env (snd (run_ffprobe demo_env
                   (inspect_command (path_join CONVERT_MEDIA_FOLDER ''odd.mov'')) (disk ?w))) = None"
    by code_simp
  from unparsable_output_propagates [of demo_env CONVERT_MEDIA_FOLDER "''odd.mov''" ?w
      "''File: ''" "''inspect_file''" "[''good.mov'']"] o1
  have 2: "inspect_loop demo_env CONVERT_MEDIA_FOLDER ''File: '' ''inspect_file''
             (''odd.mov'' # [''good.mov'']) ?w = Inl JSONDecodeError"
    by blast
  have e1: "fst (run_ffprobe demo_env (inspect_command (path_join CONVERT_MEDIA_FOLDER ''empty.mov''))
                   (disk ?w)) = 0
            \<and> json_loads demo_env (snd (run_ffprobe demo_env
                   (inspect_command (path_join CONVERT_MEDIA_FOLDER ''empty.mov'')) (disk ?w)))
                = Some (JObj [])
            \<and> getitem (JObj []) ''format'' = Inl (KeyError ''format'')"
    by code_simp
  from unparsable_output_propagates [of demo_env CONVERT_MEDIA_FOLDER "''empty.mov''" ?w
      "''File: ''" "''inspect_file''" "[''good.mov'']" "JObj []" "KeyError ''format''"] e1
  have 3: "inspect_loop demo_env CONVERT_MEDIA_FOLDER ''File: '' ''inspect_file''
             (''empty.mov'' # [''good.mov'']) ?w = Inl (KeyError ''format'')"
    by blast
  have o2: "inspect_loop demo_env CONVERT_MEDIA_FOLDER ''File: '' ''inspect_file''
              (''odd.mov'' # [''good.mov'']) (logging_info ''Inspecting validated files:'' ?w)
            = Inl JSONDecodeError"
    by code_simp
  from unparsable_output_propagates [of demo_env CONVERT_MEDIA_FOLDER "''odd.mov''" ?w
      "''File: ''" "''inspect_file''" "[''good.mov'']" "JObj []" JSONDecodeError] o2
  have 4: "inspect_files demo_env (''odd.mov'' # [''good.mov'']) ?w = Inl JSONDecodeError"
    by blast
  from 1 2 3 4 show ?thesis by simp
qed

text \<open>
  The claim as first stated fails where the probe of \<open>odd.mov\<close> succeeds with output
  that is not JSON: the inspector and the whole run end with the exception, and
  \<open>good.mov\<close> is neither inspected nor converted.
\<close>

theorem unparsable_output_aborts:
  "inspect_files demo_env [''odd.mov'', ''good.mov''] \<lparr>disk = [], logged = [], procs = []\<rparr>
     = Inl JSONDecodeError
   \<and> main demo_env ''20240101_000000_abcdef12''
        \<lparr>disk = [(''convert_media/odd.mov'', File), (''convert_media/good.mov'', File)],
          logged = [], procs = []\<rparr>
     = Inl JSONDecodeError"
  by code_simp

section \<open>The empty valid set\<close>

text \<open>
  C9. With no valid file the three bracketed stages are skipped, as claimed, but no
  notice is logged: the notice is written by \<open>inspect_files\<close> for an empty list, and
  the main program calls \<open>inspect_files\<close> only for a non-empty one. The log of a run
  over a folder whose only file fails validation, and of a run over an empty folder,
  ends with the completion record and holds no notice.
\<close>

theorem empty_valid_set_logs_no_notice:
  "map_sum id logged
     (main demo_env ''20240101_000000_abcdef12''
        \<lparr>disk = [(''convert_media/bad.avi'', File)], logged = [], procs = []\<rparr>)
   = Inr [(INFO, ''Logging initiated.''),
          (INFO, ''Begin processing conversion batch ID: 20240101_000000_abcdef12''),
          (INFO, ''Checking filenames for non-standard characters:''),
          (INFO, ''Filenames prepared for processing.''),
          (ERROR, validate_error_message ''bad.avi''),
          (ERROR, ''Returned from ffprobe: convert_media/bad.avi: Invalid data found when processing input''),
          (INFO, complete_message ''20240101_000000_abcdef12'')]
   \<and> (INFO, no_valid_notice)
       \<notin> set (projr (map_sum id logged
             (main demo_env ''20240101_000000_abcdef12''
                \<lparr>disk = [(''convert_media/bad.avi'', File)], logged = [], procs = []\<rparr>)))
   \<and> map_sum id logged
       (main demo_env ''20240101_000000_abcdef12'' \<lparr>disk = [], logged = [], procs = []\<rparr>)
     = Inr [(INFO, ''Logging initiated.''),
            (INFO, ''Begin processing conversion batch ID: 20240101_000000_abcdef12''),
            (INFO, ''Checking filenames for non-standard characters:''),
            (INFO, ''Filenames prepared for processing.''),
            (INFO, complete_message ''20240101_000000_abcdef12'')]"
  by code_simp

end
